theory Spec2Isabelle
  imports Main
begin

section \<open>Values thrown by the modelled functions\<close>

text \<open>
  Every \<^verbatim>\<open>throw\<close> (and every rejected promise) of the TypeScript sources is a value
  \<open>Inl e\<close> of the result type \<open>thrown + 'a\<close>; a normal return is \<open>Inr v\<close>.
  An \<^verbatim>\<open>async\<close> function is modelled by the value its promise settles with.
  \<open>Error m\<close> is \<^verbatim>\<open>new Error(m)\<close>; \<open>TypeError f\<close> is the TypeError that reading the
  property \<open>f\<close> of \<^verbatim>\<open>undefined\<close> raises; \<open>ServiceError n\<close> is a rejection by the
  remote service, \<open>n\<close> the exception name it reports.
\<close>

datatype validation_code =
    EmptySignInUsername
  | EmptySignInPassword
  | EmptySignUpUsername
  | EmptySignUpPassword
  | NoKey
  | UrlExpirationMaxLimitExceed

datatype thrown =
    Error string
  | TypeError string
  | ValidationError validation_code
  | AuthTokenConfigException
  | ServiceError string

text \<open>
  The \<^verbatim>\<open>name\<close> property of a thrown value: the class name of a built-in error, the
  code of a validation error, the exception name the remote service reported.
\<close>

definition validation_code_name :: "validation_code \<Rightarrow> string" where
  "validation_code_name c =
     (case c of
        EmptySignInUsername \<Rightarrow> ''EmptySignInUsername''
      | EmptySignInPassword \<Rightarrow> ''EmptySignInPassword''
      | EmptySignUpUsername \<Rightarrow> ''EmptySignUpUsername''
      | EmptySignUpPassword \<Rightarrow> ''EmptySignUpPassword''
      | NoKey \<Rightarrow> ''NoKey''
      | UrlExpirationMaxLimitExceed \<Rightarrow> ''UrlExpirationMaxLimitExceed'')"

definition errorName :: "thrown \<Rightarrow> string" where
  "errorName e =
     (case e of
        Error _ \<Rightarrow> ''Error''
      | TypeError _ \<Rightarrow> ''TypeError''
      | ValidationError c \<Rightarrow> validation_code_name c
      | AuthTokenConfigException \<Rightarrow> ''AuthTokenConfigException''
      | ServiceError n \<Rightarrow> n)"

definition returns :: "thrown + 'a \<Rightarrow> bool" where
  "returns r = (case r of Inl _ \<Rightarrow> False | Inr _ \<Rightarrow> True)"

definition throws :: "thrown + 'a \<Rightarrow> bool" where
  "throws r = (case r of Inl _ \<Rightarrow> True | Inr _ \<Rightarrow> False)"

text \<open>
  JavaScript truthiness of a string: \<^verbatim>\<open>!!s\<close> is false for the empty string.
  A parameter the TypeScript types declare as \<^verbatim>\<open>string\<close> is a \<open>string\<close> here
  (an \<^verbatim>\<open>undefined\<close> passed against the types is falsy like the empty string, and is
  identified with it); a field that may be absent is a \<open>string option\<close>, falsy when
  \<open>None\<close> or empty.
\<close>

definition truthy :: "string \<Rightarrow> bool" where
  "truthy s = (s \<noteq> [])"

definition truthy_opt :: "string option \<Rightarrow> bool" where
  "truthy_opt s = (case s of None \<Rightarrow> False | Some v \<Rightarrow> v \<noteq> [])"

text \<open>
  Modelled from the spec: \<^verbatim>\<open>assertValidationError\<close> is imported from
  \<^verbatim>\<open>errors/utils/assertValidationError\<close>, which is not among the sources. The spec
  (validation preconditions, section 4.3, and the error taxonomy, section 7) has the
  asserted condition as the one that must hold: the call throws the named validation
  error when the assertion is false and returns otherwise.
\<close>

definition assertValidationError :: "bool \<Rightarrow> validation_code \<Rightarrow> thrown + unit" where
  "assertValidationError assertion name =
     (if assertion then Inr () else Inl (ValidationError name))"


section \<open>Storage: \<^verbatim>\<open>getUrl\<close> (packages/storage/src/providers/s3/apis/getUrl.ts)\<close>

text \<open>
  JavaScript numbers are modelled as \<open>int\<close>: every quantity of \<^verbatim>\<open>getUrl\<close> is a
  count of (milli)seconds, and on integers below \<open>2 ^ 53\<close> the comparisons and the
  addition of the source are exact. A \<^verbatim>\<open>Date\<close> is its \<^verbatim>\<open>getTime()\<close>, epoch
  milliseconds.
\<close>

record s3_get_url_options =
  accessLevel :: "string option"
  validateObjectExistence :: "bool option"
  expiration :: "int option"

record storage_download_data_request =
  key :: string
  options :: "s3_get_url_options option"

record aws_credentials =
  accessKeyId :: string
  secretAccessKey :: string
  credExpiration :: "int option"

record storage_config =
  defaultAccessLevel :: "string option"
  bucket :: string
  storageRegion :: string

record get_object_input =
  Bucket :: string
  Key :: string

record presign_options =
  presignAccessLevel :: "string option"
  presignCredentials :: "aws_credentials option"
  presignExpiration :: int
  signingRegion :: string
  presignRegion :: string
  signingService :: string

record s3_get_url_result =
  url :: string
  expiresAt :: int

text \<open>
  The collaborators \<^verbatim>\<open>getUrl\<close> imports and the clock it reads. None of them is
  among the sources, so each is a parameter: what it returns (or throws) is fixed by the
  environment, and every theorem below holds for all of them.
\<close>

record get_url_env =
  resolveCredentials :: "thrown + (aws_credentials option \<times> string option)"
  resolveStorageConfig :: "thrown + storage_config"
  getProperties :: "string \<Rightarrow> thrown + unit"
  getKeyWithPrefix :: "string option \<Rightarrow> string option \<Rightarrow> string \<Rightarrow> string"
  getPresignedGetObjectUrl :: "presign_options \<Rightarrow> get_object_input \<Rightarrow> thrown + string"
  S3_SERVICE_NAME :: string
  dateNow :: int

text \<open>The calls \<^verbatim>\<open>getUrl\<close> makes to its collaborators, in the order made.\<close>

datatype s3_call =
    ResolveCredentialsCall
  | GetPropertiesCall string
  | PresignCall presign_options get_object_input

definition DEFAULT_PRESIGN_EXPIRATION :: int where
  "DEFAULT_PRESIGN_EXPIRATION = 900"

definition MAX_URL_EXPIRATION :: int where
  "MAX_URL_EXPIRATION = 7 * 24 * 60 * 60 * 1000"

text \<open>\<^verbatim>\<open>options?.expiration ?? DEFAULT_PRESIGN_EXPIRATION\<close> (lines 55 and 61).\<close>

definition requestedExpiration :: "storage_download_data_request \<Rightarrow> int" where
  "requestedExpiration req =
     (case options req of
        None \<Rightarrow> DEFAULT_PRESIGN_EXPIRATION
      | Some opts \<Rightarrow>
          (case expiration opts of
             None \<Rightarrow> DEFAULT_PRESIGN_EXPIRATION
           | Some e \<Rightarrow> e))"

text \<open>
  Lines 66 to 74: the last part of \<^verbatim>\<open>getUrl\<close>, after the expiration assertion.
  \<^verbatim>\<open>awsCredExpiration.getTime()\<close> on an undefined expiration is a TypeError, raised
  before the presigning. The clock is read after the presigned URL has been awaited.
\<close>

definition getUrl_presign ::
  "get_url_env \<Rightarrow> presign_options \<Rightarrow> get_object_input \<Rightarrow> aws_credentials option \<Rightarrow> int
     \<Rightarrow> s3_call list \<Rightarrow> (thrown + s3_get_url_result) \<times> s3_call list" where
  "getUrl_presign env getUrlOptions getUrlParams credentials urlExpiration calls =
     (case (case credentials of None \<Rightarrow> None | Some c \<Rightarrow> credExpiration c) of
        None \<Rightarrow> (Inl (TypeError ''getTime''), calls)
      | Some awsCredExpiration \<Rightarrow>
          (let urlExpiration' =
                 (if urlExpiration < awsCredExpiration then urlExpiration else awsCredExpiration);
               calls' = calls @ [PresignCall getUrlOptions getUrlParams]
           in case getPresignedGetObjectUrl env getUrlOptions getUrlParams of
                Inl e \<Rightarrow> (Inl e, calls')
              | Inr u \<Rightarrow>
                  (Inr \<lparr>url = u, expiresAt = dateNow env + urlExpiration'\<rparr>, calls')))"

text \<open>
  Lines 39 to 65, then \<open>getUrl_presign\<close>. The result is paired with the calls made.
\<close>

definition getUrl ::
  "get_url_env \<Rightarrow> storage_download_data_request
     \<Rightarrow> (thrown + s3_get_url_result) \<times> s3_call list" where
  "getUrl env req =
     (case resolveCredentials env of
        Inl e \<Rightarrow> (Inl e, [ResolveCredentialsCall])
      | Inr (credentials, identityId) \<Rightarrow>
     (case resolveStorageConfig env of
        Inl e \<Rightarrow> (Inl e, [ResolveCredentialsCall])
      | Inr cfg \<Rightarrow>
     (let accessLevel' =
            (case options req of
               None \<Rightarrow> defaultAccessLevel cfg
             | Some opts \<Rightarrow>
                 (case accessLevel opts of
                    None \<Rightarrow> defaultAccessLevel cfg
                  | Some a \<Rightarrow> Some a))
      in
     (case assertValidationError (truthy (key req)) NoKey of
        Inl e \<Rightarrow> (Inl e, [ResolveCredentialsCall])
      | Inr _ \<Rightarrow>
     (let k = key req;
          exists_check =
            (case options req of
               None \<Rightarrow> False
             | Some opts \<Rightarrow> validateObjectExistence opts = Some True);
          calls = [ResolveCredentialsCall] @ (if exists_check then [GetPropertiesCall k] else [])
      in
     (case (if exists_check then getProperties env k else Inr ()) of
        Inl e \<Rightarrow> (Inl e, calls)
      | Inr _ \<Rightarrow>
     (let finalKey = getKeyWithPrefix env accessLevel' identityId k;
          getUrlParams = \<lparr>Bucket = bucket cfg, Key = finalKey\<rparr>;
          getUrlOptions =
            \<lparr>presignAccessLevel = accessLevel',
             presignCredentials = credentials,
             presignExpiration = requestedExpiration req,
             signingRegion = storageRegion cfg,
             presignRegion = storageRegion cfg,
             signingService = S3_SERVICE_NAME env\<rparr>;
          urlExpiration = requestedExpiration req
      in
     (case assertValidationError (urlExpiration > MAX_URL_EXPIRATION)
             UrlExpirationMaxLimitExceed of
        Inl e \<Rightarrow> (Inl e, calls)
      | Inr _ \<Rightarrow>
          getUrl_presign env getUrlOptions getUrlParams credentials urlExpiration calls))))))))"

text \<open>
  The resolved credentials carry an expiration, so \<^verbatim>\<open>awsCredExpiration.getTime()\<close>
  of line 69 can be read.
\<close>

definition credentialsExpire :: "get_url_env \<Rightarrow> bool" where
  "credentialsExpire env =
     (case resolveCredentials env of
        Inl _ \<Rightarrow> False
      | Inr (credentials, identityId) \<Rightarrow>
          (case credentials of
             None \<Rightarrow> False
           | Some c \<Rightarrow> (case credExpiration c of None \<Rightarrow> False | Some _ \<Rightarrow> True)))"

definition is_presign :: "s3_call \<Rightarrow> bool" where
  "is_presign c = (case c of PresignCall _ _ \<Rightarrow> True | _ \<Rightarrow> False)"

definition presigned :: "s3_call list \<Rightarrow> bool" where
  "presigned calls = list_ex is_presign calls"

text \<open>
  The request reaches the expiration assertion of line 62: the credentials and the
  storage configuration resolve, the key is non-empty, and the object-existence check,
  when asked for, passes.
\<close>

definition reachesExpirationCheck :: "get_url_env \<Rightarrow> storage_download_data_request \<Rightarrow> bool" where
  "reachesExpirationCheck env req =
     (returns (resolveCredentials env) \<and> returns (resolveStorageConfig env) \<and> truthy (key req) \<and>
      (case options req of
         None \<Rightarrow> True
       | Some opts \<Rightarrow>
           (if validateObjectExistence opts = Some True
            then returns (getProperties env (key req)) else True)))"


section \<open>Auth: \<^verbatim>\<open>signInWithUserPassword\<close> (packages/auth/src/providers/cognito/apis)\<close>

type_synonym client_metadata = "(string \<times> string) list"

record sign_in_request =
  username :: string
  password :: string
  requestClientMetadata :: "client_metadata option"

record authentication_result_type =
  AccessToken :: "string option"
  IdToken :: "string option"
  RefreshToken :: "string option"

record initiate_auth_output =
  ChallengeName :: "string option"
  ChallengeParameters :: "(string \<times> string) list option"
  AuthenticationResult :: "authentication_result_type option"
  Session :: "string option"

text \<open>
  \<^verbatim>\<open>AuthSignInStep\<close> (\<^verbatim>\<open>../../../types\<close>, not among the sources): \<open>DONE\<close> is the
  member the function names; the steps the helpers return are kept by name.
\<close>

datatype auth_sign_in_step = DONE | OtherSignInStep string

record auth_next_sign_in_step =
  signInStep :: auth_sign_in_step

record auth_sign_in_result =
  isSignedIn :: bool
  nextStep :: auth_next_sign_in_step

text \<open>The argument of \<^verbatim>\<open>setActiveSignInState\<close> (lines 63 to 67).\<close>

record sign_in_state =
  signInSession :: "string option"
  activeUsername :: string
  challengeName :: "string option"

text \<open>Calls to the remote identity provider, in the order made.\<close>

datatype cognito_call =
    InitiateAuthCall string string "client_metadata option"

text \<open>
  What a sign-in can read and write outside its own frame: the sign-in store
  (\<^verbatim>\<open>utils/signInStore\<close>), the token cache that the comment of line 69 refers to
  (\<^verbatim>\<open>TODO(israx): cache tokens\<close>), and the calls made to the remote service.
\<close>

record auth_world =
  activeSignInState :: "sign_in_state option"
  cachedTokens :: "authentication_result_type option"
  remoteCalls :: "cognito_call list"

text \<open>
  Modelled from the spec: \<^verbatim>\<open>utils/signInStore\<close> is not among the sources.
  \<^verbatim>\<open>setActiveSignInState\<close> records the state of the attempt in flight (the spec's
  AwaitingChallengeResponse context); \<^verbatim>\<open>cleanActiveSignInState\<close> clears it, leaving no
  attempt in flight (NotStarted).
\<close>

definition setActiveSignInState :: "sign_in_state \<Rightarrow> auth_world \<Rightarrow> auth_world" where
  "setActiveSignInState st w = w\<lparr>activeSignInState := Some st\<rparr>"

definition cleanActiveSignInState :: "auth_world \<Rightarrow> auth_world" where
  "cleanActiveSignInState w = w\<lparr>activeSignInState := None\<rparr>"

text \<open>
  The helpers of \<^verbatim>\<open>utils/signInHelpers\<close> and \<^verbatim>\<open>errors/utils\<close> that the function
  imports; none is among the sources, so each is a parameter.
  \<^verbatim>\<open>handleUserPasswordAuthFlow\<close> is the challenge-flow executor (the remote
  InitiateAuth call), awaited on line 60; \<^verbatim>\<open>assertServiceError\<close> returns or throws.
  Line 78 returns \<^verbatim>\<open>getSignInResult(...)\<close> without awaiting it, so its two ways of
  failing are kept apart: \<open>Inl e\<close> is an exception thrown by the call itself, inside the
  \<^verbatim>\<open>try\<close>; \<open>Inr v\<close> is a value returned, which the function's own promise settles
  with, be it a result (\<open>Inr r\<close>) or, were the helper to return a promise, a rejection
  (\<open>Inl e\<close>), which the \<^verbatim>\<open>catch\<close> never sees.
\<close>

record sign_in_helpers =
  handleUserPasswordAuthFlow ::
    "string \<Rightarrow> string \<Rightarrow> client_metadata option \<Rightarrow> thrown + initiate_auth_output"
  getSignInResult ::
    "string option \<Rightarrow> (string \<times> string) list option
       \<Rightarrow> thrown + (thrown + auth_sign_in_result)"
  getSignInResultFromError :: "string \<Rightarrow> auth_sign_in_result option"
  assertServiceError :: "thrown \<Rightarrow> thrown + unit"

text \<open>
  The body of the \<^verbatim>\<open>try\<close> block, lines 54 to 81: \<open>Inl e\<close> is an exception raised
  inside the block, handed to the \<^verbatim>\<open>catch\<close>; \<open>Inr v\<close> is a \<^verbatim>\<open>return\<close>, with \<open>v\<close>
  what the function's promise settles with.
\<close>

definition signInWithUserPassword_try ::
  "sign_in_helpers \<Rightarrow> string \<Rightarrow> string \<Rightarrow> client_metadata option \<Rightarrow> auth_world
     \<Rightarrow> (thrown + (thrown + auth_sign_in_result)) \<times> auth_world" where
  "signInWithUserPassword_try h u p metadata w =
     (let w1 = w\<lparr>remoteCalls := remoteCalls w @ [InitiateAuthCall u p metadata]\<rparr>
      in case handleUserPasswordAuthFlow h u p metadata of
           Inl e \<Rightarrow> (Inl e, w1)
         | Inr out \<Rightarrow>
             (let w2 = setActiveSignInState
                         \<lparr>signInSession = Session out, activeUsername = u,
                          challengeName = ChallengeName out\<rparr> w1
              in case AuthenticationResult out of
                   Some _ \<Rightarrow>
                     (Inr (Inr \<lparr>isSignedIn = True, nextStep = \<lparr>signInStep = DONE\<rparr>\<rparr>),
                      cleanActiveSignInState w2)
                 | None \<Rightarrow>
                     (getSignInResult h (ChallengeName out) (ChallengeParameters out), w2)))"

text \<open>The \<^verbatim>\<open>catch\<close> block, lines 82 to 88.\<close>

definition signInWithUserPassword_catch ::
  "sign_in_helpers \<Rightarrow> thrown \<Rightarrow> auth_world \<Rightarrow> (thrown + auth_sign_in_result) \<times> auth_world" where
  "signInWithUserPassword_catch h error w =
     (let w' = cleanActiveSignInState w
      in case assertServiceError h error of
           Inl e \<Rightarrow> (Inl e, w')
         | Inr _ \<Rightarrow>
             (case getSignInResultFromError h (errorName error) of
                Some result \<Rightarrow> (Inr result, w')
              | None \<Rightarrow> (Inl error, w')))"

text \<open>
  Line 44, \<^verbatim>\<open>options?.serviceOptions?.clientMetadata || clientMetadata\<close>, where
  \<open>configClientMetadata\<close> is \<^verbatim>\<open>Amplify.config.clientMetadata\<close>.
\<close>

definition signInMetadata ::
  "client_metadata option \<Rightarrow> sign_in_request \<Rightarrow> client_metadata option" where
  "signInMetadata configClientMetadata signInRequest =
     (case requestClientMetadata signInRequest of
        Some m \<Rightarrow> Some m
      | None \<Rightarrow> configClientMetadata)"

text \<open>\<^verbatim>\<open>signInWithUserPassword\<close>, lines 39 to 89.\<close>

definition signInWithUserPassword ::
  "sign_in_helpers \<Rightarrow> client_metadata option \<Rightarrow> sign_in_request \<Rightarrow> auth_world
     \<Rightarrow> (thrown + auth_sign_in_result) \<times> auth_world" where
  "signInWithUserPassword h configClientMetadata signInRequest w =
     (let metadata = signInMetadata configClientMetadata signInRequest
      in case assertValidationError (truthy (username signInRequest)) EmptySignInUsername of
           Inl e \<Rightarrow> (Inl e, w)
         | Inr _ \<Rightarrow>
        (case assertValidationError (truthy (password signInRequest)) EmptySignInPassword of
           Inl e \<Rightarrow> (Inl e, w)
         | Inr _ \<Rightarrow>
        (case signInWithUserPassword_try h (username signInRequest) (password signInRequest)
                metadata w of
           (Inl error, w') \<Rightarrow> signInWithUserPassword_catch h error w'
         | (Inr settled, w') \<Rightarrow> (settled, w'))))"


section \<open>Auth: \<^verbatim>\<open>signUp\<close> (packages/auth/src/providers/cognito/apis)\<close>

record cognito_auth_config =
  cognitoUserPoolId :: "string option"
  cognitoUserPoolClientId :: "string option"

record token_provider_config =
  assertedUserPoolId :: string
  assertedUserPoolClientId :: string

text \<open>
  Modelled from the spec: \<^verbatim>\<open>assertTokenProviderConfig\<close> is imported from
  \<^verbatim>\<open>@aws-amplify/core/internals/utils\<close>, which is not among the sources. By the doc
  comment of \<^verbatim>\<open>signUp\<close> it throws \<^verbatim>\<open>AuthTokenConfigException\<close> when the token
  provider config is invalid, and by the spec's configuration errors (section 7) a
  configuration is invalid when the pool id or the client id is missing (this API reads
  the region off the pool id, through \<^verbatim>\<open>getRegion\<close>). When it returns, the config
  is present with both fields, which is what the TypeScript \<^verbatim>\<open>asserts\<close> gives the
  lines after it.
\<close>

definition assertTokenProviderConfig ::
  "cognito_auth_config option \<Rightarrow> thrown + token_provider_config" where
  "assertTokenProviderConfig authConfig =
     (case authConfig of
        None \<Rightarrow> Inl AuthTokenConfigException
      | Some c \<Rightarrow>
          (case (cognitoUserPoolId c, cognitoUserPoolClientId c) of
             (Some pool, Some client) \<Rightarrow>
               (if truthy pool \<and> truthy client
                then Inr \<lparr>assertedUserPoolId = pool, assertedUserPoolClientId = client\<rparr>
                else Inl AuthTokenConfigException)
           | _ \<Rightarrow> Inl AuthTokenConfigException))"

type_synonym attribute_type = "string \<times> string"

record sign_up_request =
  signUpUsername :: string
  signUpPassword :: string
  userAttributes :: "(string \<times> string) list option"
  validationData :: "(string \<times> string) list option"
  signUpClientMetadata :: "client_metadata option"

record sign_up_input =
  Username :: string
  Password :: string
  UserAttributes :: "attribute_type list option"
  ClientMetadata :: "client_metadata option"
  ValidationData :: "attribute_type list option"
  ClientId :: string

record code_delivery_details_type =
  DeliveryMedium :: "string option"
  Destination :: "string option"
  AttributeName :: "string option"

record sign_up_output =
  UserConfirmed :: "bool option"
  CodeDeliveryDetails :: "code_delivery_details_type option"
  UserSub :: "string option"

record auth_code_delivery_details =
  deliveryMedium :: "string option"
  destination :: "string option"
  attributeName :: "string option"

record auth_next_sign_up_step =
  signUpStep :: string
  codeDeliveryDetails :: "auth_code_delivery_details option"

record auth_sign_up_result =
  isSignUpComplete :: bool
  signUpNextStep :: auth_next_sign_up_step
  userId :: "string option"

text \<open>
  The imported helpers and the remote client of \<^verbatim>\<open>signUp\<close>, as parameters (none is
  among the sources).
\<close>

record sign_up_helpers =
  toAttributeType :: "(string \<times> string) list \<Rightarrow> attribute_type list"
  getRegion :: "string \<Rightarrow> thrown + string"
  signUpClient :: "string \<Rightarrow> sign_up_input \<Rightarrow> thrown + sign_up_output"

datatype sign_up_call = SignUpCall string sign_up_input

text \<open>
  Lines 53 to 73: the attribute lists (lines 53 to 61) and the request handed to the
  remote client.
\<close>

definition signUp_input ::
  "sign_up_helpers \<Rightarrow> token_provider_config \<Rightarrow> sign_up_request \<Rightarrow> sign_up_input" where
  "signUp_input h cfg signUpRequest =
     (let validationData' =
            (case validationData signUpRequest of
               None \<Rightarrow> None | Some v \<Rightarrow> Some (toAttributeType h v));
          attributes =
            (case userAttributes signUpRequest of
               None \<Rightarrow> None | Some a \<Rightarrow> Some (toAttributeType h a))
      in \<lparr>Username = signUpUsername signUpRequest,
          Password = signUpPassword signUpRequest,
          UserAttributes = attributes,
          ClientMetadata = signUpClientMetadata signUpRequest,
          ValidationData = validationData',
          ClientId = assertedUserPoolClientId cfg\<rparr>)"

text \<open>Lines 75 to 98: the result built from the remote response.\<close>

definition signUp_result :: "sign_up_output \<Rightarrow> auth_sign_up_result" where
  "signUp_result res =
     (if UserConfirmed res = Some True
      then \<lparr>isSignUpComplete = True,
            signUpNextStep = \<lparr>signUpStep = ''DONE'', codeDeliveryDetails = None\<rparr>,
            userId = None\<rparr>
      else \<lparr>isSignUpComplete = False,
            signUpNextStep =
              \<lparr>signUpStep = ''CONFIRM_SIGN_UP'',
               codeDeliveryDetails =
                 Some \<lparr>deliveryMedium =
                         (case CodeDeliveryDetails res of
                            None \<Rightarrow> None | Some d \<Rightarrow> DeliveryMedium d),
                       destination =
                         (case CodeDeliveryDetails res of
                            None \<Rightarrow> None | Some d \<Rightarrow> Destination d),
                       attributeName =
                         (case CodeDeliveryDetails res of
                            None \<Rightarrow> None | Some d \<Rightarrow> AttributeName d)\<rparr>\<rparr>,
            userId = UserSub res\<rparr>)"

text \<open>
  \<^verbatim>\<open>signUp\<close>; \<open>authConfig\<close> is \<^verbatim>\<open>Amplify.getConfig().Auth?.Cognito\<close>. The result
  is paired with the remote calls made.
\<close>

definition signUp ::
  "sign_up_helpers \<Rightarrow> cognito_auth_config option \<Rightarrow> sign_up_request
     \<Rightarrow> (thrown + auth_sign_up_result) \<times> sign_up_call list" where
  "signUp h authConfig signUpRequest =
     (case assertTokenProviderConfig authConfig of
        Inl e \<Rightarrow> (Inl e, [])
      | Inr cfg \<Rightarrow>
     (case assertValidationError (truthy (signUpUsername signUpRequest)) EmptySignUpUsername of
        Inl e \<Rightarrow> (Inl e, [])
      | Inr _ \<Rightarrow>
     (case assertValidationError (truthy (signUpPassword signUpRequest)) EmptySignUpPassword of
        Inl e \<Rightarrow> (Inl e, [])
      | Inr _ \<Rightarrow>
     (case getRegion h (assertedUserPoolId cfg) of
        Inl e \<Rightarrow> (Inl e, [])
      | Inr r \<Rightarrow>
     (let input = signUp_input h cfg signUpRequest
      in
     (case signUpClient h r input of
        Inl e \<Rightarrow> (Inl e, [SignUpCall r input])
      | Inr res \<Rightarrow> (Inr (signUp_result res), [SignUpCall r input])))))))"


section \<open>Auth: the \<^verbatim>\<open>CognitoProvider\<close> facade (packages/auth/src/cognito/cognito.d.ts)\<close>

record plugin_config =
  userPoolId :: "string option"
  clientId :: "string option"
  region :: "string option"
  identityPoolId :: "string option"

record sign_in_params =
  signInType :: string
  signInUsername :: string
  signInPassword :: "string option"

record sign_up_params =
  paramsUsername :: string
  paramsPassword :: string

record confirm_sign_in_params =
  paramsChallengeName :: string
  confirmationCode :: "string option"
  newPassword :: "string option"

text \<open>
  The events the facade sends: to the authentication machine
  (\<^verbatim>\<open>this._authService.send\<close>) and to the sign-in actor it spawned
  (\<^verbatim>\<open>signInActorRef.send\<close>). The machines (\<^verbatim>\<open>./machines/*\<close>) are not among the
  sources. The sign-in and sign-up methods of the facade reach the remote service
  through them only, by sending them an event, so these methods are modelled up to the
  events they send: the state after a call holds the event sent and the machine state
  the call found, and the result that \<^verbatim>\<open>waitForSignInComplete\<close> later reads off the
  machine is not part of the model. The parameter types (\<^verbatim>\<open>../../types\<close>) are not
  among the sources either; the records carry the fields the code reads.
\<close>

datatype auth_machine_event =
    ConfigureEvent plugin_config
  | SignInRequested sign_in_params string
  | InitiateSignUp sign_up_params

datatype sign_in_machine_event =
    RespondToAuthChallenge confirm_sign_in_params

record sign_in_actor =
  actorState :: string
  received :: "sign_in_machine_event list"

text \<open>
  The provider: \<^verbatim>\<open>_config\<close>, the value of \<^verbatim>\<open>_authService.state\<close> (what
  \<^verbatim>\<open>state.matches\<close> compares), \<^verbatim>\<open>state.context.actorRef\<close>, and the events sent to
  \<^verbatim>\<open>_authService\<close> so far. The storage override of \<^verbatim>\<open>configure\<close> (lines 136 to
  138) is left out, no modelled function reading the storage; so is its OAuth
  continuation (lines 141 to 152), which runs after \<^verbatim>\<open>configure\<close> has returned, once the
  machine has reached \<^verbatim>\<open>signedOut\<close>, when the page was loaded with an authorization
  code.
\<close>

record cognito_provider =
  config :: plugin_config
  machineState :: string
  actorRef :: "sign_in_actor option"
  sentEvents :: "auth_machine_event list"

definition PROVIDER_NAME :: string where
  "PROVIDER_NAME = ''CognitoProvider''"

definition authFlow :: string where
  "authFlow = ''USER_PASSWORD_AUTH''"

definition matches :: "cognito_provider \<Rightarrow> string \<Rightarrow> bool" where
  "matches p st = (machineState p = st)"

definition isConfigured :: "cognito_provider \<Rightarrow> bool" where
  "isConfigured p = (truthy_opt (userPoolId (config p)) \<and> truthy_opt (region (config p)))"

definition isAuthenticated :: "cognito_provider \<Rightarrow> bool" where
  "isAuthenticated p = matches p ''signedIn''"

text \<open>
  A sign-in awaits its challenge response: the machine is in \<^verbatim>\<open>signingIn\<close> and its
  sign-in actor in \<^verbatim>\<open>nextAuthChallenge\<close>, the state \<^verbatim>\<open>waitForSignInComplete\<close> waits
  for (line 293) and reports as \<^verbatim>\<open>nextStep\<close> (line 301). Between the sign-in request
  and that state the machine is in \<^verbatim>\<open>signingIn\<close> with an actor in another state
  (lines 277 to 294).
\<close>

definition awaitingChallengeResponse :: "cognito_provider \<Rightarrow> bool" where
  "awaitingChallengeResponse p =
     (matches p ''signingIn'' \<and>
      (case actorRef p of
         None \<Rightarrow> False
       | Some signInActorRef \<Rightarrow> actorState signInActorRef = ''nextAuthChallenge''))"

definition send :: "auth_machine_event \<Rightarrow> cognito_provider \<Rightarrow> cognito_provider" where
  "send ev p = p\<lparr>sentEvents := sentEvents p @ [ev]\<rparr>"

text \<open>\<^verbatim>\<open>configure\<close>, lines 122 to 139.\<close>

definition configure ::
  "plugin_config \<Rightarrow> cognito_provider \<Rightarrow> (thrown + unit) \<times> cognito_provider" where
  "configure cfg p =
     (if \<not> truthy_opt (userPoolId cfg) \<or> \<not> truthy_opt (region cfg)
      then (Inl (Error (''Invalid config for '' @ PROVIDER_NAME)), p)
      else
        (let c = \<lparr>userPoolId = userPoolId cfg, clientId = clientId cfg,
                  region = region cfg, identityPoolId = identityPoolId cfg\<rparr>
         in (Inr (), send (ConfigureEvent c) (p\<lparr>config := c\<rparr>))))"

text \<open>
  \<^verbatim>\<open>signIn\<close>, lines 205 to 229: the three guards, then the request is handed to the
  authentication machine.
\<close>

definition CognitoProvider_signIn ::
  "sign_in_params \<Rightarrow> cognito_provider \<Rightarrow> (thrown + unit) \<times> cognito_provider" where
  "CognitoProvider_signIn params p =
     (if \<not> isConfigured p then (Inl (Error ''Plugin not configured''), p)
      else if signInType params = ''Link'' \<or> signInType params = ''WebAuthn''
      then (Inl (Error ''Not implemented''), p)
      else if isAuthenticated p
      then (Inl (Error
        ''User is already authenticated, please sign out the current user before signing in.''), p)
      else (Inr (), send (SignInRequested params authFlow) p))"

text \<open>\<^verbatim>\<open>signUp\<close>, lines 167 to 174.\<close>

definition CognitoProvider_signUp ::
  "sign_up_params \<Rightarrow> cognito_provider \<Rightarrow> (thrown + unit) \<times> cognito_provider" where
  "CognitoProvider_signUp params p =
     (if \<not> isConfigured p then (Inl (Error ''Plugin not configured''), p)
      else (Inr (), send (InitiateSignUp params) p))"

text \<open>
  \<^verbatim>\<open>confirmSignIn\<close>, lines 307 to 328: the two guards, then the challenge response is
  handed to the sign-in actor.
\<close>

definition CognitoProvider_confirmSignIn ::
  "confirm_sign_in_params \<Rightarrow> cognito_provider \<Rightarrow> (thrown + unit) \<times> cognito_provider" where
  "CognitoProvider_confirmSignIn params p =
     (if paramsChallengeName params \<noteq> ''SMS_MFA'' \<and>
         paramsChallengeName params \<noteq> ''SOFTWARE_TOKEN_MFA'' \<and>
         paramsChallengeName params \<noteq> ''NEW_PASSWORD_REQUIRED''
      then (Inl (Error ''Not implemented''), p)
      else
        (case actorRef p of
           None \<Rightarrow>
             (Inl (Error ''Sign in proccess has not been initiated, have you called .signIn?''), p)
         | Some signInActorRef \<Rightarrow>
             (if \<not> matches p ''signingIn''
              then (Inl (Error
                ''Sign in proccess has not been initiated, have you called .signIn?''), p)
              else (Inr (),
                    p\<lparr>actorRef :=
                        Some (signInActorRef\<lparr>received :=
                          received signInActorRef @ [RespondToAuthChallenge params]\<rparr>)\<rparr>))))"


section \<open>Predictions: \<^verbatim>\<open>PredictionsClass\<close> (src/unnamed/part_002)\<close>

text \<open>
  A pluggable is its provider name and the capability method the dispatch calls on it
  (\<^verbatim>\<open>convert\<close>, \<^verbatim>\<open>identify\<close> or \<^verbatim>\<open>interpret\<close>).
\<close>

record ('i, 'o) pluggable =
  getProviderName :: string
  execute :: "'i \<Rightarrow> 'o"

record provider_options =
  providerName :: "string option"

record ('i, 'o) predictions_class =
  convertPluggables :: "('i, 'o) pluggable list"
  identifyPluggables :: "('i, 'o) pluggable list"
  interpretPluggables :: "('i, 'o) pluggable list"

text \<open>
  \<^verbatim>\<open>providerOptions && providerOptions.providerName\<close> (line 176): the options are
  present and carry a non-empty name.
\<close>

definition namesProvider :: "provider_options option \<Rightarrow> bool" where
  "namesProvider providerOptions =
     (case providerOptions of
        None \<Rightarrow> False
      | Some po \<Rightarrow> truthy_opt (providerName po))"

text \<open>
  \<^verbatim>\<open>getPluggableToExecute\<close>, lines 170 to 191. \<^verbatim>\<open>Array.prototype.find\<close> returns
  \<^verbatim>\<open>undefined\<close> (\<open>None\<close>) when no element matches.
\<close>

definition getPluggableToExecute ::
  "('i, 'o) pluggable list \<Rightarrow> provider_options option \<Rightarrow> thrown + ('i, 'o) pluggable option" where
  "getPluggableToExecute pluggables providerOptions =
     (if namesProvider providerOptions
      then Inr (find (\<lambda>pluggable.
                  Some (getProviderName pluggable) =
                    (case providerOptions of None \<Rightarrow> None | Some po \<Rightarrow> providerName po))
                pluggables)
      else
        (case pluggables of
           [pluggable] \<Rightarrow> Inr (Some pluggable)
         | _ \<Rightarrow>
             Inl (Error (''More than one or no providers are configured, '' @
                         ''Either specify a provider name or configure exactly one provider''))))"

text \<open>
  The three dispatchers \<^verbatim>\<open>interpret\<close>, \<^verbatim>\<open>convert\<close> and \<^verbatim>\<open>identify\<close>
  (lines 106 to 167) call a method on what
  \<^verbatim>\<open>getPluggableToExecute\<close> returned; on \<^verbatim>\<open>undefined\<close> that is a TypeError.
\<close>

definition callOn ::
  "string \<Rightarrow> (thrown + ('i, 'o) pluggable option) \<Rightarrow> 'i \<Rightarrow> thrown + 'o" where
  "callOn method pluggableToExecute input =
     (case pluggableToExecute of
        Inl e \<Rightarrow> Inl e
      | Inr None \<Rightarrow>
          Inl (TypeError method)
      | Inr (Some pluggable) \<Rightarrow> Inr (execute pluggable input))"

definition Predictions_interpret ::
  "('i, 'o) predictions_class \<Rightarrow> 'i \<Rightarrow> provider_options option \<Rightarrow> thrown + 'o" where
  "Predictions_interpret cls input opts =
     callOn ''interpret'' (getPluggableToExecute (interpretPluggables cls) opts) input"

definition Predictions_convert ::
  "('i, 'o) predictions_class \<Rightarrow> 'i \<Rightarrow> provider_options option \<Rightarrow> thrown + 'o" where
  "Predictions_convert cls input opts =
     callOn ''convert'' (getPluggableToExecute (convertPluggables cls) opts) input"

definition Predictions_identify ::
  "('i, 'o) predictions_class \<Rightarrow> 'i \<Rightarrow> provider_options option \<Rightarrow> thrown + 'o" where
  "Predictions_identify cls input opts =
     callOn ''identify'' (getPluggableToExecute (identifyPluggables cls) opts) input"


section \<open>Example inputs\<close>

text \<open>
  A storage environment whose credentials expire at \<open>credExp\<close> and whose clock reads
  \<open>now\<close> (both epoch milliseconds), and a request for key \<open>k\<close> with expiration \<open>e\<close>.
\<close>

definition example_get_url_env :: "int \<Rightarrow> int \<Rightarrow> get_url_env" where
  "example_get_url_env credExp now =
     \<lparr>resolveCredentials =
        Inr (Some \<lparr>accessKeyId = ''AKIA'', secretAccessKey = ''secret'',
                    credExpiration = Some credExp\<rparr>, Some ''id-1''),
      resolveStorageConfig =
        Inr \<lparr>defaultAccessLevel = Some ''guest'', bucket = ''bucket'',
             storageRegion = ''us-east-1''\<rparr>,
      getProperties = (\<lambda>k. Inr ()),
      getKeyWithPrefix = (\<lambda>a i k. ''public/'' @ k),
      getPresignedGetObjectUrl = (\<lambda>opts params. Inr (''https://bucket/'' @ Key params)),
      S3_SERVICE_NAME = ''s3'',
      dateNow = now\<rparr>"

definition example_get_url_request :: "string \<Rightarrow> int option \<Rightarrow> storage_download_data_request" where
  "example_get_url_request k e =
     \<lparr>key = k,
      options = Some \<lparr>accessLevel = None, validateObjectExistence = None, expiration = e\<rparr>\<rparr>"

text \<open>
  A mocked identity provider: the password \<open>correct\<close> signs in, the password \<open>mfa\<close>
  is answered with an SMS challenge, any other is rejected with
  \<^verbatim>\<open>NotAuthorizedException\<close>. The sign-in helpers map a challenge to a confirmation
  step and a pending password reset to a reset step.
\<close>

definition example_tokens :: authentication_result_type where
  "example_tokens =
     \<lparr>AccessToken = Some ''access'', IdToken = Some ''id'', RefreshToken = Some ''refresh''\<rparr>"

definition example_sign_in_helpers :: sign_in_helpers where
  "example_sign_in_helpers =
     \<lparr>handleUserPasswordAuthFlow =
        (\<lambda>u p m.
           if p = ''correct''
           then Inr \<lparr>ChallengeName = None, ChallengeParameters = None,
                     AuthenticationResult = Some example_tokens, Session = None\<rparr>
           else if p = ''mfa''
           then Inr \<lparr>ChallengeName = Some ''SMS_MFA'', ChallengeParameters = Some [],
                     AuthenticationResult = None, Session = Some ''session-1''\<rparr>
           else Inl (ServiceError ''NotAuthorizedException'')),
      getSignInResult =
        (\<lambda>name params.
           Inr (Inr \<lparr>isSignedIn = False,
                     nextStep =
                       \<lparr>signInStep = OtherSignInStep ''CONFIRM_SIGN_IN_WITH_SMS_CODE''\<rparr>\<rparr>)),
      getSignInResultFromError =
        (\<lambda>name.
           if name = ''PasswordResetRequiredException''
           then Some \<lparr>isSignedIn = False,
                      nextStep = \<lparr>signInStep = OtherSignInStep ''RESET_PASSWORD''\<rparr>\<rparr>
           else None),
      assertServiceError =
        (\<lambda>e. case e of ServiceError _ \<Rightarrow> Inr () | _ \<Rightarrow> Inl (Error ''Unknown''))\<rparr>"

definition example_sign_in_request :: "string \<Rightarrow> string \<Rightarrow> sign_in_request" where
  "example_sign_in_request u p =
     \<lparr>username = u, password = p, requestClientMetadata = None\<rparr>"

definition empty_auth_world :: auth_world where
  "empty_auth_world = \<lparr>activeSignInState = None, cachedTokens = None, remoteCalls = []\<rparr>"

text \<open>
  A mocked sign-up service that answers every request with an unconfirmed user and an
  e-mail delivery.
\<close>

definition example_sign_up_output :: sign_up_output where
  "example_sign_up_output =
     \<lparr>UserConfirmed = Some False,
      CodeDeliveryDetails =
        Some \<lparr>DeliveryMedium = Some ''EMAIL'', Destination = Some ''a***@example.com'',
              AttributeName = Some ''email''\<rparr>,
      UserSub = Some ''sub-1''\<rparr>"

definition example_sign_up_helpers :: sign_up_helpers where
  "example_sign_up_helpers =
     \<lparr>toAttributeType = (\<lambda>attrs. attrs),
      getRegion = (\<lambda>pool. Inr (takeWhile (\<lambda>c. c \<noteq> CHR ''_'') pool)),
      signUpClient = (\<lambda>r input. Inr example_sign_up_output)\<rparr>"

definition example_auth_config :: cognito_auth_config where
  "example_auth_config =
     \<lparr>cognitoUserPoolId = Some ''us-east-1_abc'', cognitoUserPoolClientId = Some ''client-1''\<rparr>"

definition example_sign_up_request :: "string \<Rightarrow> string \<Rightarrow> sign_up_request" where
  "example_sign_up_request u p =
     \<lparr>signUpUsername = u, signUpPassword = p, userAttributes = None, validationData = None,
      signUpClientMetadata = None\<rparr>"

text \<open>
  A provider in machine state \<open>st\<close> with a sign-in actor when \<open>a\<close> is given, and a
  configuration that names a pool and a region but no client id.
\<close>

definition config_without_client_id :: plugin_config where
  "config_without_client_id =
     \<lparr>userPoolId = Some ''us-east-1_abc'', clientId = None, region = Some ''us-east-1'',
      identityPoolId = None\<rparr>"

definition example_provider :: "string \<Rightarrow> sign_in_actor option \<Rightarrow> cognito_provider" where
  "example_provider st a =
     \<lparr>config = config_without_client_id, machineState = st, actorRef = a, sentEvents = []\<rparr>"

definition unconfigured_provider :: cognito_provider where
  "unconfigured_provider =
     \<lparr>config = \<lparr>userPoolId = None, clientId = None, region = None, identityPoolId = None\<rparr>,
      machineState = ''notConfigured'', actorRef = None, sentEvents = []\<rparr>"

definition awaiting_actor :: sign_in_actor where
  "awaiting_actor = \<lparr>actorState = ''nextAuthChallenge'', received = []\<rparr>"

text \<open>
  An actor that has not reached \<^verbatim>\<open>nextAuthChallenge\<close> yet. The names of the actor's
  other states are in the sign-in machine, not among the sources; any other name stands
  for one of them.
\<close>

definition initiating_actor :: sign_in_actor where
  "initiating_actor = \<lparr>actorState = ''initiating'', received = []\<rparr>"

definition password_sign_in :: sign_in_params where
  "password_sign_in =
     \<lparr>signInType = ''Password'', signInUsername = ''u'', signInPassword = Some ''p''\<rparr>"

definition sms_code :: confirm_sign_in_params where
  "sms_code =
     \<lparr>paramsChallengeName = ''SMS_MFA'', confirmationCode = Some ''123456'', newPassword = None\<rparr>"

definition example_pluggable :: "string \<Rightarrow> (string, string) pluggable" where
  "example_pluggable n = \<lparr>getProviderName = n, execute = (\<lambda>input. n @ '': '' @ input)\<rparr>"

section \<open>Storage: the expiration of a presigned URL\<close>

lemmas getUrl_defs = getUrl_def getUrl_presign_def requestedExpiration_def
  MAX_URL_EXPIRATION_def DEFAULT_PRESIGN_EXPIRATION_def assertValidationError_def truthy_def
  example_get_url_env_def example_get_url_request_def Let_def

text \<open>
  Claim C3 says that \<^verbatim>\<open>expiresAt\<close> is the sooner of the requested expiry and the
  credentials' expiry, both as epoch milliseconds, so that it never exceeds the
  credentials' expiration. The code compares the requested duration with the
  credentials' absolute expiration time and adds the clock to the smaller of the two.
  With credentials that expire one hour from now (\<open>1700003600000\<close>, the clock reading
  \<open>1700000000000\<close>) and a requested expiration of \<open>604800001\<close>, the URL is reported
  to expire at \<open>1700604800001\<close>, a week after the credentials.
\<close>

theorem getUrl_expiresAt_beyond_credentials:
  "fst (getUrl (example_get_url_env 1700003600000 1700000000000)
              (example_get_url_request ''a.txt'' (Some 604800001)))
     = Inr \<lparr>url = ''https://bucket/public/a.txt'', expiresAt = 1700604800001\<rparr>"
  by (simp add: getUrl_defs)

lemma getUrl_expiresAt_value:
  assumes "getUrl env req = (Inr r, calls)"
  shows "\<exists>c i t. resolveCredentials env = Inr (Some c, i) \<and> credExpiration c = Some t \<and>
           expiresAt r = dateNow env + min (requestedExpiration req) t"
  using assms
  by (auto simp: getUrl_def getUrl_presign_def assertValidationError_def Let_def min_def
        split: sum.splits prod.splits option.splits if_splits)

lemma getUrl_small_expiration_throws:
  assumes "requestedExpiration req \<le> MAX_URL_EXPIRATION"
  shows "throws (fst (getUrl env req)) \<and> \<not> presigned (snd (getUrl env req))"
  using assms
  by (auto simp: getUrl_def throws_def presigned_def is_presign_def assertValidationError_def
        Let_def split: sum.splits prod.splits option.splits if_splits)

lemma getUrl_small_expiration_error:
  assumes "reachesExpirationCheck env req" "requestedExpiration req \<le> MAX_URL_EXPIRATION"
  shows "fst (getUrl env req) = Inl (ValidationError UrlExpirationMaxLimitExceed)"
  using assms
  by (auto simp: getUrl_def reachesExpirationCheck_def returns_def truthy_def
        assertValidationError_def Let_def split: sum.splits prod.splits option.splits if_splits)

lemma getUrl_large_expiration_presigns:
  assumes "reachesExpirationCheck env req" "MAX_URL_EXPIRATION < requestedExpiration req"
    "credentialsExpire env"
  shows "presigned (snd (getUrl env req))"
  using assms
  by (auto simp: getUrl_def getUrl_presign_def presigned_def is_presign_def
        reachesExpirationCheck_def credentialsExpire_def returns_def truthy_def
        assertValidationError_def Let_def
        split: sum.splits prod.splits option.splits if_splits)

text \<open>
  Claim C9, as amended: a \<^verbatim>\<open>getUrl\<close> request whose requested expiration (900 when
  absent) is at most \<open>604800000\<close> fails before any presigning; when the request
  reaches the expiration assertion (credentials and storage configuration resolve, the
  key is non-empty, the object-existence check passes when asked for) the error is
  \<^verbatim>\<open>UrlExpirationMaxLimitExceed\<close>. Only a requested expiration strictly greater than
  the constant passes the assertion: a request that reaches it, with credentials that
  carry an expiration, is presigned exactly when its expiration exceeds the constant.
\<close>

theorem getUrl_expiration_assertion:
  "(requestedExpiration req \<le> MAX_URL_EXPIRATION \<longrightarrow>
      throws (fst (getUrl env req)) \<and> \<not> presigned (snd (getUrl env req))) \<and>
   (requestedExpiration req \<le> MAX_URL_EXPIRATION \<and> reachesExpirationCheck env req \<longrightarrow>
      fst (getUrl env req) = Inl (ValidationError UrlExpirationMaxLimitExceed)) \<and>
   (reachesExpirationCheck env req \<and> credentialsExpire env \<longrightarrow>
      presigned (snd (getUrl env req)) = (MAX_URL_EXPIRATION < requestedExpiration req))"
proof (intro conjI impI)
  assume "requestedExpiration req \<le> MAX_URL_EXPIRATION"
  then show "throws (fst (getUrl env req))" "\<not> presigned (snd (getUrl env req))"
    using getUrl_small_expiration_throws by blast+
next
  assume "requestedExpiration req \<le> MAX_URL_EXPIRATION \<and> reachesExpirationCheck env req"
  then show "fst (getUrl env req) = Inl (ValidationError UrlExpirationMaxLimitExceed)"
    using getUrl_small_expiration_error by blast
next
  assume h: "reachesExpirationCheck env req \<and> credentialsExpire env"
  show "presigned (snd (getUrl env req)) = (MAX_URL_EXPIRATION < requestedExpiration req)"
  proof (cases "MAX_URL_EXPIRATION < requestedExpiration req")
    case True
    then show ?thesis using h getUrl_large_expiration_presigns by blast
  next
    case False
    then have "requestedExpiration req \<le> MAX_URL_EXPIRATION" by simp
    then show ?thesis using False getUrl_small_expiration_throws by blast
  qed
qed

text \<open>
  The default expiration, on a request that reaches the assertion: the hypotheses hold
  and the call ends in \<^verbatim>\<open>UrlExpirationMaxLimitExceed\<close> with nothing presigned.
\<close>

theorem getUrl_expiration_assertion_witness:
  "requestedExpiration (example_get_url_request ''a.txt'' None) \<le> MAX_URL_EXPIRATION \<and>
   reachesExpirationCheck (example_get_url_env 1700003600000 1700000000000)
     (example_get_url_request ''a.txt'' None) \<and>
   credentialsExpire (example_get_url_env 1700003600000 1700000000000) \<and>
   fst (getUrl (example_get_url_env 1700003600000 1700000000000)
          (example_get_url_request ''a.txt'' None))
     = Inl (ValidationError UrlExpirationMaxLimitExceed) \<and>
   \<not> presigned (snd (getUrl (example_get_url_env 1700003600000 1700000000000)
          (example_get_url_request ''a.txt'' None)))"
proof -
  let ?env = "example_get_url_env 1700003600000 1700000000000"
  let ?req = "example_get_url_request ''a.txt'' None"
  have small: "requestedExpiration ?req \<le> MAX_URL_EXPIRATION"
    by (simp add: getUrl_defs)
  have reach: "reachesExpirationCheck ?env ?req"
    by (simp add: reachesExpirationCheck_def returns_def getUrl_defs)
  have cred: "credentialsExpire ?env"
    by (simp add: credentialsExpire_def getUrl_defs)
  show ?thesis
    using small reach cred getUrl_expiration_assertion [of ?req ?env] by simp
qed

text \<open>
  Claim C9 as stated fails on a request with an empty key: its expiration is the
  default, below the constant, and the call ends in \<^verbatim>\<open>NoKey\<close>, raised by the
  assertion of line 43, not in \<^verbatim>\<open>UrlExpirationMaxLimitExceed\<close>.
\<close>

theorem getUrl_empty_key_is_NoKey:
  "requestedExpiration (example_get_url_request [] None) \<le> MAX_URL_EXPIRATION \<and>
   fst (getUrl (example_get_url_env 1700003600000 1700000000000)
          (example_get_url_request [] None))
     = Inl (ValidationError NoKey) \<and>
   fst (getUrl (example_get_url_env 1700003600000 1700000000000)
          (example_get_url_request [] None))
     \<noteq> Inl (ValidationError UrlExpirationMaxLimitExceed)"
  by (simp add: getUrl_defs)

section \<open>Auth: sign-in with user name and password\<close>

lemmas signIn_defs = signInWithUserPassword_def signInWithUserPassword_try_def
  signInWithUserPassword_catch_def signInMetadata_def setActiveSignInState_def
  cleanActiveSignInState_def assertValidationError_def truthy_def Let_def

lemmas signIn_example_defs = example_sign_in_helpers_def example_sign_in_request_def
  empty_auth_world_def example_tokens_def errorName_def

text \<open>
  Claim C1 says that when the executor returns an \<^verbatim>\<open>AuthenticationResult\<close> the token
  cache is updated before the signed-in result is observable. The code returns
  \<^verbatim>\<open>isSignedIn: true\<close> after clearing the active sign-in state only (line 69 is
  \<^verbatim>\<open>TODO(israx): cache tokens\<close>): on an empty cache and the accepted password, the
  caller receives the signed-in result and the cache is still empty.
\<close>

theorem signInWithUserPassword_signed_in_without_tokens:
  "signInWithUserPassword example_sign_in_helpers None
     (example_sign_in_request ''u'' ''correct'') empty_auth_world
   = (Inr \<lparr>isSignedIn = True, nextStep = \<lparr>signInStep = DONE\<rparr>\<rparr>,
      \<lparr>activeSignInState = None, cachedTokens = None,
       remoteCalls = [InitiateAuthCall ''u'' ''correct'' None]\<rparr>)"
  by (simp add: signIn_defs signIn_example_defs)

lemma signInWithUserPassword_calls_executor:
  assumes "truthy (username req)" "truthy (password req)"
  shows "remoteCalls (snd (signInWithUserPassword h cm req w))
           = remoteCalls w @ [InitiateAuthCall (username req) (password req) (signInMetadata cm req)]"
  using assms
  by (auto simp: signInWithUserPassword_def signInWithUserPassword_try_def
        signInWithUserPassword_catch_def setActiveSignInState_def cleanActiveSignInState_def
        assertValidationError_def Let_def split: sum.splits option.splits prod.splits)

lemma signInWithUserPassword_executor_throws:
  assumes "truthy (username req)" "truthy (password req)"
    "handleUserPasswordAuthFlow h (username req) (password req) (signInMetadata cm req) = Inl err"
  shows "signInWithUserPassword h cm req w =
           ((case assertServiceError h err of
               Inl e \<Rightarrow> Inl e
             | Inr _ \<Rightarrow>
                 (case getSignInResultFromError h (errorName err) of
                    Some result \<Rightarrow> Inr result
                  | None \<Rightarrow> Inl err)),
            w\<lparr>activeSignInState := None,
              remoteCalls := remoteCalls w @
                [InitiateAuthCall (username req) (password req) (signInMetadata cm req)]\<rparr>)"
  using assms
  by (auto simp: signInWithUserPassword_def signInWithUserPassword_try_def
        signInWithUserPassword_catch_def setActiveSignInState_def cleanActiveSignInState_def
        assertValidationError_def Let_def split: sum.splits option.splits prod.splits)

lemma signInWithUserPassword_executor_authenticates:
  assumes "truthy (username req)" "truthy (password req)"
    "handleUserPasswordAuthFlow h (username req) (password req) (signInMetadata cm req) = Inr out"
    "AuthenticationResult out = Some tokens"
  shows "signInWithUserPassword h cm req w =
           (Inr \<lparr>isSignedIn = True, nextStep = \<lparr>signInStep = DONE\<rparr>\<rparr>,
            w\<lparr>activeSignInState := None,
              remoteCalls := remoteCalls w @
                [InitiateAuthCall (username req) (password req) (signInMetadata cm req)]\<rparr>)"
  using assms
  by (auto simp: signInWithUserPassword_def signInWithUserPassword_try_def
        signInWithUserPassword_catch_def setActiveSignInState_def cleanActiveSignInState_def
        assertValidationError_def Let_def split: sum.splits option.splits prod.splits)

text \<open>
  Claim C4: when the executor call of a sign-in throws, the active sign-in state is
  cleared in the state that the error or the mapped result is delivered with, whatever
  it held before (and whether the error is rethrown, replaced by
  \<^verbatim>\<open>assertServiceError\<close> or mapped to a result); a sign-in issued next, whose executor
  call returns an \<^verbatim>\<open>AuthenticationResult\<close>, signs the user in.
\<close>

theorem signInWithUserPassword_error_clears_state:
  assumes "truthy (username req)" and "truthy (password req)"
    and "handleUserPasswordAuthFlow h (username req) (password req) (signInMetadata cm req)
           = Inl err"
  shows "activeSignInState (snd (signInWithUserPassword h cm req w)) = None \<and>
         fst (signInWithUserPassword h cm req w) =
           (case assertServiceError h err of
              Inl e \<Rightarrow> Inl e
            | Inr _ \<Rightarrow>
                (case getSignInResultFromError h (errorName err) of
                   Some result \<Rightarrow> Inr result
                 | None \<Rightarrow> Inl err)) \<and>
         (truthy (username req') \<and> truthy (password req') \<and>
          handleUserPasswordAuthFlow h (username req') (password req') (signInMetadata cm req')
            = Inr out \<and>
          AuthenticationResult out = Some tokens \<longrightarrow>
            fst (signInWithUserPassword h cm req' (snd (signInWithUserPassword h cm req w)))
              = Inr \<lparr>isSignedIn = True, nextStep = \<lparr>signInStep = DONE\<rparr>\<rparr>)"
proof (intro conjI impI)
  show "activeSignInState (snd (signInWithUserPassword h cm req w)) = None"
    by (simp add: signInWithUserPassword_executor_throws [OF assms])
  show "fst (signInWithUserPassword h cm req w) =
           (case assertServiceError h err of
              Inl e \<Rightarrow> Inl e
            | Inr _ \<Rightarrow>
                (case getSignInResultFromError h (errorName err) of
                   Some result \<Rightarrow> Inr result
                 | None \<Rightarrow> Inl err))"
    by (simp add: signInWithUserPassword_executor_throws [OF assms])
next
  assume "truthy (username req') \<and> truthy (password req') \<and>
          handleUserPasswordAuthFlow h (username req') (password req') (signInMetadata cm req')
            = Inr out \<and>
          AuthenticationResult out = Some tokens"
  then show "fst (signInWithUserPassword h cm req' (snd (signInWithUserPassword h cm req w)))
              = Inr \<lparr>isSignedIn = True, nextStep = \<lparr>signInStep = DONE\<rparr>\<rparr>"
    by (simp add: signInWithUserPassword_executor_authenticates)
qed

text \<open>
  The mocked identity provider rejects the password \<open>wrong\<close> with
  \<^verbatim>\<open>NotAuthorizedException\<close> while an earlier attempt awaits its SMS code: the error
  is delivered with the sign-in state cleared, and the sign-in with the accepted
  password that follows signs the user in.
\<close>

theorem signInWithUserPassword_error_clears_state_witness:
  "activeSignInState
     (snd (signInWithUserPassword example_sign_in_helpers None
             (example_sign_in_request ''u'' ''mfa'') empty_auth_world)) \<noteq> None \<and>
   signInWithUserPassword example_sign_in_helpers None (example_sign_in_request ''u'' ''wrong'')
     (snd (signInWithUserPassword example_sign_in_helpers None
             (example_sign_in_request ''u'' ''mfa'') empty_auth_world))
   = (Inl (ServiceError ''NotAuthorizedException''),
      \<lparr>activeSignInState = None, cachedTokens = None,
       remoteCalls = [InitiateAuthCall ''u'' ''mfa'' None, InitiateAuthCall ''u'' ''wrong'' None]\<rparr>) \<and>
   fst (signInWithUserPassword example_sign_in_helpers None
          (example_sign_in_request ''u'' ''correct'')
          (snd (signInWithUserPassword example_sign_in_helpers None
                  (example_sign_in_request ''u'' ''wrong'')
                  (snd (signInWithUserPassword example_sign_in_helpers None
                          (example_sign_in_request ''u'' ''mfa'') empty_auth_world)))))
   = Inr \<lparr>isSignedIn = True, nextStep = \<lparr>signInStep = DONE\<rparr>\<rparr>"
proof -
  let ?h = example_sign_in_helpers
  let ?w = "snd (signInWithUserPassword ?h None (example_sign_in_request ''u'' ''mfa'')
               empty_auth_world)"
  let ?bad = "example_sign_in_request ''u'' ''wrong''"
  let ?good = "example_sign_in_request ''u'' ''correct''"
  have u: "truthy (username ?bad)" and p: "truthy (password ?bad)"
    by (simp_all add: example_sign_in_request_def truthy_def)
  have rejected: "handleUserPasswordAuthFlow ?h (username ?bad) (password ?bad)
                    (signInMetadata None ?bad) = Inl (ServiceError ''NotAuthorizedException'')"
    by (simp add: signIn_example_defs signInMetadata_def)
  have accepted: "truthy (username ?good) \<and> truthy (password ?good) \<and>
      handleUserPasswordAuthFlow ?h (username ?good) (password ?good) (signInMetadata None ?good)
        = Inr \<lparr>ChallengeName = None, ChallengeParameters = None,
               AuthenticationResult = Some example_tokens, Session = None\<rparr> \<and>
      AuthenticationResult \<lparr>ChallengeName = None, ChallengeParameters = None,
               AuthenticationResult = Some example_tokens, Session = None\<rparr> = Some example_tokens"
    by (simp add: example_sign_in_helpers_def example_sign_in_request_def signInMetadata_def
          truthy_def)
  have awaiting: "activeSignInState ?w \<noteq> None"
    by (simp add: signIn_defs signIn_example_defs)
  have second: "signInWithUserPassword ?h None ?bad ?w
     = (Inl (ServiceError ''NotAuthorizedException''),
        \<lparr>activeSignInState = None, cachedTokens = None,
         remoteCalls = [InitiateAuthCall ''u'' ''mfa'' None,
                        InitiateAuthCall ''u'' ''wrong'' None]\<rparr>)"
    by (simp add: signIn_defs signIn_example_defs)
  show ?thesis
    using awaiting second accepted
      signInWithUserPassword_error_clears_state [OF u p rejected,
        where req' = ?good and tokens = example_tokens and w = ?w]
    by blast
qed

lemma signInWithUserPassword_empty_credentials:
  assumes "\<not> truthy (username req) \<or> \<not> truthy (password req)"
  shows "signInWithUserPassword h cm req w =
           (Inl (ValidationError
                  (if truthy (username req) then EmptySignInPassword else EmptySignInUsername)),
            w)"
  using assms by (auto simp: signInWithUserPassword_def assertValidationError_def Let_def)

lemma signUp_empty_credentials:
  assumes "\<not> truthy (signUpUsername sreq) \<or> \<not> truthy (signUpPassword sreq)"
  shows "signUp sh ac sreq =
           ((case assertTokenProviderConfig ac of
               Inl e \<Rightarrow> Inl e
             | Inr _ \<Rightarrow>
                 Inl (ValidationError
                       (if truthy (signUpUsername sreq) then EmptySignUpPassword
                        else EmptySignUpUsername))),
            [])"
  using assms
  by (auto simp: signUp_def assertValidationError_def split: sum.splits)

text \<open>
  Claim C5, as amended: a sign-in whose user name or password is empty fails with a
  validation error (\<^verbatim>\<open>EmptySignInUsername\<close>, else \<^verbatim>\<open>EmptySignInPassword\<close>) and
  leaves the state as it was: no remote call is made, none is repeated, and the sign-in
  store is untouched. A sign-up whose user name or password is empty makes no remote
  call either; it fails with the validation error (\<^verbatim>\<open>EmptySignUpUsername\<close>, else
  \<^verbatim>\<open>EmptySignUpPassword\<close>) when the token provider configuration is valid, and with
  the configuration error that \<^verbatim>\<open>assertTokenProviderConfig\<close> throws first when it is
  not.
\<close>

theorem empty_credentials_fail_before_remote_call:
  "(\<not> truthy (username req) \<or> \<not> truthy (password req) \<longrightarrow>
      signInWithUserPassword h cm req w =
        (Inl (ValidationError
               (if truthy (username req) then EmptySignInPassword else EmptySignInUsername)),
         w)) \<and>
   (\<not> truthy (signUpUsername sreq) \<or> \<not> truthy (signUpPassword sreq) \<longrightarrow>
      signUp sh ac sreq =
        ((case assertTokenProviderConfig ac of
            Inl e \<Rightarrow> Inl e
          | Inr _ \<Rightarrow>
              Inl (ValidationError
                    (if truthy (signUpUsername sreq) then EmptySignUpPassword
                     else EmptySignUpUsername))),
         []))"
  using signInWithUserPassword_empty_credentials signUp_empty_credentials by blast

text \<open>
  A sign-in with an empty user name, and a sign-up with an empty password under a valid
  configuration.
\<close>

theorem empty_credentials_fail_before_remote_call_witness:
  "\<not> truthy (username (example_sign_in_request [] ''correct'')) \<and>
   signInWithUserPassword example_sign_in_helpers None (example_sign_in_request [] ''correct'')
     empty_auth_world
   = (Inl (ValidationError EmptySignInUsername), empty_auth_world) \<and>
   \<not> truthy (signUpPassword (example_sign_up_request ''u'' [])) \<and>
   signUp example_sign_up_helpers (Some example_auth_config) (example_sign_up_request ''u'' [])
   = (Inl (ValidationError EmptySignUpPassword), [])"
proof -
  have a: "\<not> truthy (username (example_sign_in_request [] ''correct''))"
    by (simp add: example_sign_in_request_def truthy_def)
  have b: "\<not> truthy (signUpPassword (example_sign_up_request ''u'' []))"
    by (simp add: example_sign_up_request_def truthy_def)
  have c: "truthy (signUpUsername (example_sign_up_request ''u'' []))"
    by (simp add: example_sign_up_request_def truthy_def)
  have d: "assertTokenProviderConfig (Some example_auth_config)
             = Inr \<lparr>assertedUserPoolId = ''us-east-1_abc'',
                    assertedUserPoolClientId = ''client-1''\<rparr>"
    by (simp add: assertTokenProviderConfig_def example_auth_config_def truthy_def)
  show ?thesis
    using a b c d
      empty_credentials_fail_before_remote_call
        [of "example_sign_in_request [] ''correct''" example_sign_in_helpers None
            empty_auth_world "example_sign_up_request ''u'' []" example_sign_up_helpers
            "Some example_auth_config"]
    by simp
qed

text \<open>
  Claim C5 as stated fails on a sign-up with an empty user name when no configuration
  is present: the error is \<^verbatim>\<open>AuthTokenConfigException\<close>, not a validation error.
\<close>

theorem signUp_empty_username_config_error:
  "\<not> truthy (signUpUsername (example_sign_up_request [] ''pw'')) \<and>
   signUp example_sign_up_helpers None (example_sign_up_request [] ''pw'')
   = (Inl AuthTokenConfigException, [])"
  by (simp add: signUp_def assertTokenProviderConfig_def example_sign_up_request_def truthy_def)

section \<open>Auth: the guards of the provider facade\<close>

lemmas provider_defs = CognitoProvider_signIn_def CognitoProvider_signUp_def
  CognitoProvider_confirmSignIn_def configure_def isConfigured_def isAuthenticated_def
  matches_def send_def truthy_opt_def throws_def PROVIDER_NAME_def authFlow_def Let_def

lemmas provider_example_defs = example_provider_def unconfigured_provider_def
  config_without_client_id_def awaiting_actor_def password_sign_in_def sms_code_def

lemma CognitoProvider_signIn_throws_iff:
  "throws (fst (CognitoProvider_signIn params p)) =
     (\<not> isConfigured p \<or> signInType params = ''Link'' \<or> signInType params = ''WebAuthn'' \<or>
      isAuthenticated p)"
  by (simp add: CognitoProvider_signIn_def throws_def)

lemma CognitoProvider_signIn_throws_unchanged:
  "throws (fst (CognitoProvider_signIn params p)) \<Longrightarrow> snd (CognitoProvider_signIn params p) = p"
  by (auto simp: CognitoProvider_signIn_def throws_def split: if_splits)

lemma CognitoProvider_signIn_while_signingIn:
  assumes "isConfigured p" "signInType params \<noteq> ''Link''" "signInType params \<noteq> ''WebAuthn''"
    "matches p ''signingIn''"
  shows "CognitoProvider_signIn params p = (Inr (), send (SignInRequested params authFlow) p)"
  using assms by (simp add: CognitoProvider_signIn_def isAuthenticated_def matches_def)

lemma signInWithUserPassword_store_after:
  assumes "truthy (username req)" "truthy (password req)"
  shows "activeSignInState (snd (signInWithUserPassword h cm req w)) =
           (case handleUserPasswordAuthFlow h (username req) (password req)
                   (signInMetadata cm req) of
              Inl _ \<Rightarrow> None
            | Inr out \<Rightarrow>
                (case AuthenticationResult out of
                   Some _ \<Rightarrow> None
                 | None \<Rightarrow>
                     (case getSignInResult h (ChallengeName out) (ChallengeParameters out) of
                        Inl _ \<Rightarrow> None
                      | Inr _ \<Rightarrow>
                          Some \<lparr>signInSession = Session out, activeUsername = username req,
                                challengeName = ChallengeName out\<rparr>)))"
  using assms
  by (auto simp: signInWithUserPassword_def signInWithUserPassword_try_def
        signInWithUserPassword_catch_def setActiveSignInState_def cleanActiveSignInState_def
        assertValidationError_def Let_def split: sum.splits option.splits prod.splits)

text \<open>
  Claim C2, as amended: no sign-in entry point rejects a second sign-in while an earlier
  attempt awaits its challenge response. \<^verbatim>\<open>CognitoProvider.signIn\<close> fails, before
  sending anything to the authentication machine, exactly when the provider is not
  configured, the sign-in type is \<^verbatim>\<open>Link\<close> or \<^verbatim>\<open>WebAuthn\<close>, or the machine is in
  \<^verbatim>\<open>signedIn\<close>; in \<^verbatim>\<open>signingIn\<close> it sends a new \<^verbatim>\<open>signInRequested\<close> event.
  \<^verbatim>\<open>signInWithUserPassword\<close>, given a non-empty user name and password, makes exactly
  one executor call whatever the active sign-in state holds, and what it leaves in the
  sign-in store is decided by that call alone: the new attempt's session, user name and
  challenge name when the executor answers with a challenge, nothing when the executor
  returns tokens or throws (or \<^verbatim>\<open>getSignInResult\<close> throws). The attempt the store held
  before is overwritten in every case.
\<close>

theorem signIn_not_single_flight:
  "throws (fst (CognitoProvider_signIn params p)) =
     (\<not> isConfigured p \<or> signInType params = ''Link'' \<or> signInType params = ''WebAuthn'' \<or>
      isAuthenticated p) \<and>
   (throws (fst (CognitoProvider_signIn params p)) \<longrightarrow>
      snd (CognitoProvider_signIn params p) = p) \<and>
   (isConfigured p \<and> signInType params \<noteq> ''Link'' \<and> signInType params \<noteq> ''WebAuthn'' \<and>
    matches p ''signingIn'' \<longrightarrow>
      CognitoProvider_signIn params p = (Inr (), send (SignInRequested params authFlow) p)) \<and>
   (truthy (username req) \<and> truthy (password req) \<longrightarrow>
      remoteCalls (snd (signInWithUserPassword h cm req w)) =
        remoteCalls w @
          [InitiateAuthCall (username req) (password req) (signInMetadata cm req)] \<and>
      activeSignInState (snd (signInWithUserPassword h cm req w)) =
        (case handleUserPasswordAuthFlow h (username req) (password req)
                (signInMetadata cm req) of
           Inl _ \<Rightarrow> None
         | Inr out \<Rightarrow>
             (case AuthenticationResult out of
                Some _ \<Rightarrow> None
              | None \<Rightarrow>
                  (case getSignInResult h (ChallengeName out) (ChallengeParameters out) of
                     Inl _ \<Rightarrow> None
                   | Inr _ \<Rightarrow>
                       Some \<lparr>signInSession = Session out, activeUsername = username req,
                             challengeName = ChallengeName out\<rparr>))))"
  using CognitoProvider_signIn_throws_iff CognitoProvider_signIn_throws_unchanged
    CognitoProvider_signIn_while_signingIn signInWithUserPassword_calls_executor
    signInWithUserPassword_store_after
  by blast

text \<open>
  A configured provider whose machine is in \<^verbatim>\<open>signingIn\<close>, its actor awaiting the
  challenge response, is sent a second sign-in request; a provider in \<^verbatim>\<open>signedIn\<close>
  refuses one. While the store holds the attempt of user \<open>u\<close>, which awaits its SMS
  code, a sign-in of user \<open>v\<close> makes a second executor call and replaces the stored
  attempt with its own.
\<close>

theorem signIn_not_single_flight_witness:
  "isConfigured (example_provider ''signingIn'' (Some awaiting_actor)) \<and>
   matches (example_provider ''signingIn'' (Some awaiting_actor)) ''signingIn'' \<and>
   CognitoProvider_signIn password_sign_in (example_provider ''signingIn'' (Some awaiting_actor))
     = (Inr (), send (SignInRequested password_sign_in authFlow)
                  (example_provider ''signingIn'' (Some awaiting_actor))) \<and>
   throws (fst (CognitoProvider_signIn password_sign_in (example_provider ''signedIn'' None))) \<and>
   snd (CognitoProvider_signIn password_sign_in (example_provider ''signedIn'' None))
     = example_provider ''signedIn'' None \<and>
   activeSignInState (snd (signInWithUserPassword example_sign_in_helpers None
                             (example_sign_in_request ''u'' ''mfa'') empty_auth_world))
     = Some \<lparr>signInSession = Some ''session-1'', activeUsername = ''u'',
             challengeName = Some ''SMS_MFA''\<rparr> \<and>
   remoteCalls (snd (signInWithUserPassword example_sign_in_helpers None
                       (example_sign_in_request ''v'' ''mfa'')
                       (snd (signInWithUserPassword example_sign_in_helpers None
                               (example_sign_in_request ''u'' ''mfa'') empty_auth_world))))
     = [InitiateAuthCall ''u'' ''mfa'' None, InitiateAuthCall ''v'' ''mfa'' None] \<and>
   activeSignInState (snd (signInWithUserPassword example_sign_in_helpers None
                             (example_sign_in_request ''v'' ''mfa'')
                             (snd (signInWithUserPassword example_sign_in_helpers None
                                     (example_sign_in_request ''u'' ''mfa'') empty_auth_world))))
     = Some \<lparr>signInSession = Some ''session-1'', activeUsername = ''v'',
             challengeName = Some ''SMS_MFA''\<rparr>"
proof -
  let ?p = "example_provider ''signingIn'' (Some awaiting_actor)"
  let ?q = "example_provider ''signedIn'' None"
  let ?req = "example_sign_in_request ''v'' ''mfa''"
  let ?w = "snd (signInWithUserPassword example_sign_in_helpers None
                   (example_sign_in_request ''u'' ''mfa'') empty_auth_world)"
  let ?out = "\<lparr>ChallengeName = Some ''SMS_MFA'', ChallengeParameters = Some [],
               AuthenticationResult = None, Session = Some ''session-1''\<rparr>"
  have cfg: "isConfigured ?p"
    by (simp add: provider_defs provider_example_defs)
  have st: "matches ?p ''signingIn''"
    by (simp add: provider_defs provider_example_defs)
  have ty: "signInType password_sign_in \<noteq> ''Link'' \<and> signInType password_sign_in \<noteq> ''WebAuthn''"
    by (simp add: password_sign_in_def)
  have auth: "isAuthenticated ?q"
    by (simp add: provider_defs provider_example_defs)
  have cred: "truthy (username ?req) \<and> truthy (password ?req)"
    by (simp add: example_sign_in_request_def truthy_def)
  have meta: "signInMetadata None ?req = None" "username ?req = ''v''" "password ?req = ''mfa''"
    by (simp_all add: signInMetadata_def example_sign_in_request_def)
  have exec: "handleUserPasswordAuthFlow example_sign_in_helpers ''v'' ''mfa'' None = Inr ?out"
    by (simp add: example_sign_in_helpers_def)
  have res: "getSignInResult example_sign_in_helpers (Some ''SMS_MFA'') (Some [])
               = Inr (Inr \<lparr>isSignedIn = False,
                     nextStep =
                       \<lparr>signInStep = OtherSignInStep ''CONFIRM_SIGN_IN_WITH_SMS_CODE''\<rparr>\<rparr>)"
    by (simp add: example_sign_in_helpers_def)
  have before: "remoteCalls ?w = [InitiateAuthCall ''u'' ''mfa'' None]"
    "activeSignInState ?w = Some \<lparr>signInSession = Some ''session-1'', activeUsername = ''u'',
                                  challengeName = Some ''SMS_MFA''\<rparr>"
    by (simp_all add: signIn_defs signIn_example_defs)
  show ?thesis
    using cfg st ty auth cred meta exec res before
      signIn_not_single_flight [of password_sign_in ?p ?req example_sign_in_helpers None ?w]
      signIn_not_single_flight [of password_sign_in ?q ?req example_sign_in_helpers None ?w]
    by simp
qed

text \<open>
  Claim C2 as stated fails: with the first attempt suspended on its SMS challenge (the
  sign-in store holds it), a second \<^verbatim>\<open>signInWithUserPassword\<close> is not rejected, it
  makes a second executor call and signs the user in; and a provider in
  \<^verbatim>\<open>signingIn\<close> whose actor awaits the challenge response answers a second
  \<^verbatim>\<open>signIn\<close> by sending \<^verbatim>\<open>signInRequested\<close>, with no error.
\<close>

theorem second_signIn_is_not_rejected:
  "activeSignInState (snd (signInWithUserPassword example_sign_in_helpers None
       (example_sign_in_request ''u'' ''mfa'') empty_auth_world))
     = Some \<lparr>signInSession = Some ''session-1'', activeUsername = ''u'',
             challengeName = Some ''SMS_MFA''\<rparr> \<and>
   signInWithUserPassword example_sign_in_helpers None (example_sign_in_request ''u'' ''correct'')
     (snd (signInWithUserPassword example_sign_in_helpers None
             (example_sign_in_request ''u'' ''mfa'') empty_auth_world))
     = (Inr \<lparr>isSignedIn = True, nextStep = \<lparr>signInStep = DONE\<rparr>\<rparr>,
        \<lparr>activeSignInState = None, cachedTokens = None,
         remoteCalls = [InitiateAuthCall ''u'' ''mfa'' None,
                        InitiateAuthCall ''u'' ''correct'' None]\<rparr>) \<and>
   CognitoProvider_signIn password_sign_in (example_provider ''signingIn'' (Some awaiting_actor))
     = (Inr (),
        \<lparr>config = config_without_client_id, machineState = ''signingIn'',
         actorRef = Some awaiting_actor,
         sentEvents = [SignInRequested password_sign_in ''USER_PASSWORD_AUTH'']\<rparr>)"
  by (simp add: signIn_defs signIn_example_defs provider_defs provider_example_defs)

lemma CognitoProvider_confirmSignIn_not_initiated:
  assumes "actorRef p = None \<or> \<not> matches p ''signingIn''"
  shows "CognitoProvider_confirmSignIn params p =
           (Inl (Error
              (if paramsChallengeName params \<in>
                    {''SMS_MFA'', ''SOFTWARE_TOKEN_MFA'', ''NEW_PASSWORD_REQUIRED''}
               then ''Sign in proccess has not been initiated, have you called .signIn?''
               else ''Not implemented'')), p)"
  using assms by (auto simp: CognitoProvider_confirmSignIn_def split: option.splits)

lemma CognitoProvider_confirmSignIn_throws_iff:
  "throws (fst (CognitoProvider_confirmSignIn params p)) =
     (paramsChallengeName params \<notin>
        {''SMS_MFA'', ''SOFTWARE_TOKEN_MFA'', ''NEW_PASSWORD_REQUIRED''} \<or>
      actorRef p = None \<or> \<not> matches p ''signingIn'')"
  by (auto simp: CognitoProvider_confirmSignIn_def throws_def split: option.splits)

lemma CognitoProvider_confirmSignIn_throws_unchanged:
  "throws (fst (CognitoProvider_confirmSignIn params p)) \<Longrightarrow>
     snd (CognitoProvider_confirmSignIn params p) = p"
  by (auto simp: CognitoProvider_confirmSignIn_def throws_def split: option.splits if_splits)

lemma CognitoProvider_confirmSignIn_accepted:
  assumes "actorRef p = Some a" "matches p ''signingIn''"
    "paramsChallengeName params \<in>
       {''SMS_MFA'', ''SOFTWARE_TOKEN_MFA'', ''NEW_PASSWORD_REQUIRED''}"
  shows "CognitoProvider_confirmSignIn params p =
           (Inr (), p\<lparr>actorRef := Some (a\<lparr>received := received a @
                                              [RespondToAuthChallenge params]\<rparr>)\<rparr>)"
  using assms by (auto simp: CognitoProvider_confirmSignIn_def)

text \<open>
  Claim C6, as amended: \<^verbatim>\<open>confirmSignIn\<close> called when no sign-in has been initiated
  (the machine holds no sign-in actor, or is not in \<^verbatim>\<open>signingIn\<close>) fails with an
  error the facade raises itself, \<^verbatim>\<open>Sign in proccess has not been initiated, have you
  called .signIn?\<close> for a supported challenge name and \<^verbatim>\<open>Not implemented\<close> for any
  other; the call fails for these reasons only, and a failing call leaves the provider
  as it was, with nothing sent to the sign-in actor or to the machine, so that no
  remote call is made and the error is not the service's. The state of the sign-in
  actor is not looked at: in \<^verbatim>\<open>signingIn\<close>, a supported challenge response is handed
  to the actor whatever state the actor is in, also when it does not await a challenge
  response.
\<close>

theorem confirmSignIn_without_signIn_fails:
  "(actorRef p = None \<or> \<not> matches p ''signingIn'' \<longrightarrow>
      CognitoProvider_confirmSignIn params p =
        (Inl (Error
           (if paramsChallengeName params \<in>
                 {''SMS_MFA'', ''SOFTWARE_TOKEN_MFA'', ''NEW_PASSWORD_REQUIRED''}
            then ''Sign in proccess has not been initiated, have you called .signIn?''
            else ''Not implemented'')), p)) \<and>
   throws (fst (CognitoProvider_confirmSignIn params p)) =
     (paramsChallengeName params \<notin>
        {''SMS_MFA'', ''SOFTWARE_TOKEN_MFA'', ''NEW_PASSWORD_REQUIRED''} \<or>
      actorRef p = None \<or> \<not> matches p ''signingIn'') \<and>
   (throws (fst (CognitoProvider_confirmSignIn params p)) \<longrightarrow>
      snd (CognitoProvider_confirmSignIn params p) = p) \<and>
   (actorRef p = Some a \<and> matches p ''signingIn'' \<and>
    paramsChallengeName params \<in>
      {''SMS_MFA'', ''SOFTWARE_TOKEN_MFA'', ''NEW_PASSWORD_REQUIRED''} \<longrightarrow>
      CognitoProvider_confirmSignIn params p =
        (Inr (), p\<lparr>actorRef := Some (a\<lparr>received := received a @
                                           [RespondToAuthChallenge params]\<rparr>)\<rparr>))"
  using CognitoProvider_confirmSignIn_not_initiated CognitoProvider_confirmSignIn_throws_iff
    CognitoProvider_confirmSignIn_throws_unchanged CognitoProvider_confirmSignIn_accepted
  by blast

text \<open>
  A signed-out provider with no sign-in actor refuses an SMS code and stays as it was;
  a provider in \<^verbatim>\<open>signingIn\<close> whose actor has not reached \<^verbatim>\<open>nextAuthChallenge\<close> hands
  the code to the actor.
\<close>

theorem confirmSignIn_without_signIn_fails_witness:
  "actorRef (example_provider ''signedOut'' None) = None \<and>
   throws (fst (CognitoProvider_confirmSignIn sms_code (example_provider ''signedOut'' None))) \<and>
   CognitoProvider_confirmSignIn sms_code (example_provider ''signedOut'' None)
     = (Inl (Error ''Sign in proccess has not been initiated, have you called .signIn?''),
        example_provider ''signedOut'' None) \<and>
   actorRef (example_provider ''signingIn'' (Some initiating_actor)) = Some initiating_actor \<and>
   matches (example_provider ''signingIn'' (Some initiating_actor)) ''signingIn'' \<and>
   CognitoProvider_confirmSignIn sms_code (example_provider ''signingIn'' (Some initiating_actor))
     = (Inr (),
        (example_provider ''signingIn'' (Some initiating_actor))
          \<lparr>actorRef := Some (initiating_actor
                               \<lparr>received := received initiating_actor @
                                              [RespondToAuthChallenge sms_code]\<rparr>)\<rparr>)"
proof -
  let ?p = "example_provider ''signedOut'' None"
  let ?q = "example_provider ''signingIn'' (Some initiating_actor)"
  have none: "actorRef ?p = None"
    by (simp add: example_provider_def)
  have some: "actorRef ?q = Some initiating_actor"
    by (simp add: example_provider_def)
  have st: "matches ?q ''signingIn''"
    by (simp add: matches_def example_provider_def)
  have name: "paramsChallengeName sms_code = ''SMS_MFA''"
    by (simp add: sms_code_def)
  show ?thesis
    using none some st name
      confirmSignIn_without_signIn_fails [of ?p sms_code]
      confirmSignIn_without_signIn_fails [of ?q sms_code initiating_actor]
    by (simp add: throws_def)
qed

text \<open>
  Claim C6 as stated fails: a provider in \<^verbatim>\<open>signingIn\<close> whose actor has not reached
  \<^verbatim>\<open>nextAuthChallenge\<close> does not await a challenge response, yet \<^verbatim>\<open>confirmSignIn\<close>
  raises no error there and sends the response to the actor.
\<close>

theorem confirmSignIn_accepted_before_challenge:
  "\<not> awaitingChallengeResponse (example_provider ''signingIn'' (Some initiating_actor)) \<and>
   CognitoProvider_confirmSignIn sms_code (example_provider ''signingIn'' (Some initiating_actor))
     = (Inr (),
        \<lparr>config = config_without_client_id, machineState = ''signingIn'',
         actorRef = Some \<lparr>actorState = ''initiating'',
                          received = [RespondToAuthChallenge sms_code]\<rparr>,
         sentEvents = []\<rparr>)"
  by (simp add: provider_defs provider_example_defs awaitingChallengeResponse_def
        initiating_actor_def)

lemma configure_missing_pool_or_region:
  assumes "\<not> truthy_opt (userPoolId cfg) \<or> \<not> truthy_opt (region cfg)"
  shows "configure cfg p = (Inl (Error ''Invalid config for CognitoProvider''), p)"
  using assms by (auto simp: configure_def PROVIDER_NAME_def)

lemma not_configured_operations_fail:
  assumes "\<not> truthy_opt (userPoolId (config p)) \<or> \<not> truthy_opt (region (config p))"
  shows "CognitoProvider_signIn sp p = (Inl (Error ''Plugin not configured''), p)"
    and "CognitoProvider_signUp up p = (Inl (Error ''Plugin not configured''), p)"
  using assms
  by (auto simp: CognitoProvider_signIn_def CognitoProvider_signUp_def isConfigured_def)

lemma clientId_not_checked:
  "fst (configure (cfg\<lparr>clientId := c\<rparr>) p) = fst (configure cfg p)"
  "isConfigured (p\<lparr>config := (config p)\<lparr>clientId := c\<rparr>\<rparr>) = isConfigured p"
  by (simp_all add: configure_def isConfigured_def Let_def)

text \<open>
  Claim C8, as amended: for every configuration missing the user pool id or the region,
  \<^verbatim>\<open>configure\<close> fails with \<^verbatim>\<open>Error('Invalid config for CognitoProvider')\<close>, and
  while the stored configuration misses either, \<^verbatim>\<open>signIn\<close> and \<^verbatim>\<open>signUp\<close> fail with
  \<^verbatim>\<open>Error('Plugin not configured')\<close>; each failure leaves the provider as it was, with
  nothing sent to the authentication machine. The client id is not looked at:
  replacing it, or removing it, changes neither the outcome of \<^verbatim>\<open>configure\<close> nor
  \<^verbatim>\<open>isConfigured\<close>.
\<close>

theorem missing_pool_or_region_fails_before_dispatch:
  "(\<not> truthy_opt (userPoolId cfg) \<or> \<not> truthy_opt (region cfg) \<longrightarrow>
      configure cfg p = (Inl (Error ''Invalid config for CognitoProvider''), p)) \<and>
   (\<not> truthy_opt (userPoolId (config p)) \<or> \<not> truthy_opt (region (config p)) \<longrightarrow>
      CognitoProvider_signIn sp p = (Inl (Error ''Plugin not configured''), p) \<and>
      CognitoProvider_signUp up p = (Inl (Error ''Plugin not configured''), p)) \<and>
   fst (configure (cfg\<lparr>clientId := c\<rparr>) p) = fst (configure cfg p) \<and>
   isConfigured (p\<lparr>config := (config p)\<lparr>clientId := c\<rparr>\<rparr>) = isConfigured p"
  using configure_missing_pool_or_region not_configured_operations_fail clientId_not_checked
  by blast

text \<open>
  A configuration with a pool id and no region, offered to a provider that holds no
  configuration.
\<close>

theorem missing_pool_or_region_fails_before_dispatch_witness:
  "\<not> truthy_opt (region (config_without_client_id\<lparr>region := None\<rparr>)) \<and>
   \<not> truthy_opt (userPoolId (config unconfigured_provider)) \<and>
   configure (config_without_client_id\<lparr>region := None\<rparr>) unconfigured_provider
     = (Inl (Error ''Invalid config for CognitoProvider''), unconfigured_provider) \<and>
   CognitoProvider_signIn password_sign_in unconfigured_provider
     = (Inl (Error ''Plugin not configured''), unconfigured_provider) \<and>
   CognitoProvider_signUp \<lparr>paramsUsername = ''u'', paramsPassword = ''p''\<rparr> unconfigured_provider
     = (Inl (Error ''Plugin not configured''), unconfigured_provider)"
proof -
  let ?cfg = "config_without_client_id\<lparr>region := None\<rparr>"
  have a: "\<not> truthy_opt (region ?cfg)"
    by (simp add: truthy_opt_def)
  have b: "\<not> truthy_opt (userPoolId (config unconfigured_provider))"
    by (simp add: truthy_opt_def unconfigured_provider_def)
  show ?thesis
    using a b
      missing_pool_or_region_fails_before_dispatch
        [of ?cfg unconfigured_provider password_sign_in
            "\<lparr>paramsUsername = ''u'', paramsPassword = ''p''\<rparr>"]
    by blast
qed

text \<open>
  Claim C8 as stated fails on a configuration that misses the client id only:
  \<^verbatim>\<open>configure\<close> accepts it, the provider counts as configured, and a sign-in is
  handed to the authentication machine.
\<close>

theorem missing_client_id_is_accepted:
  "clientId config_without_client_id = None \<and>
   configure config_without_client_id unconfigured_provider
     = (Inr (),
        \<lparr>config = config_without_client_id, machineState = ''notConfigured'', actorRef = None,
         sentEvents = [ConfigureEvent config_without_client_id]\<rparr>) \<and>
   isConfigured (snd (configure config_without_client_id unconfigured_provider)) \<and>
   fst (CognitoProvider_signIn password_sign_in
          (snd (configure config_without_client_id unconfigured_provider))) = Inr () \<and>
   sentEvents (snd (CognitoProvider_signIn password_sign_in
          (snd (configure config_without_client_id unconfigured_provider))))
     = [ConfigureEvent config_without_client_id,
        SignInRequested password_sign_in ''USER_PASSWORD_AUTH'']"
  by (simp add: provider_defs provider_example_defs)

section \<open>Auth: the result of a sign-up\<close>

lemma signUp_reaches_response:
  assumes "assertTokenProviderConfig ac = Inr cfg"
    and "truthy (signUpUsername req)" and "truthy (signUpPassword req)"
    and "getRegion h (assertedUserPoolId cfg) = Inr r"
    and "signUpClient h r (signUp_input h cfg req) = Inr res"
  shows "signUp h ac req = (Inr (signUp_result res), [SignUpCall r (signUp_input h cfg req)])"
  using assms by (simp add: signUp_def assertValidationError_def Let_def)

text \<open>
  Claim C7: a sign-up that reaches the remote service (the configuration is valid, the
  user name and password are non-empty, the region is read off the pool id) and is
  answered with \<^verbatim>\<open>UserConfirmed = true\<close> is complete, with step \<^verbatim>\<open>DONE\<close>. Answered
  otherwise, it is not complete, its step is \<^verbatim>\<open>CONFIRM_SIGN_UP\<close>, the user id is the
  response's \<^verbatim>\<open>UserSub\<close>, and the delivery medium, the destination and the attribute
  name are those of the response's \<^verbatim>\<open>CodeDeliveryDetails\<close>, unchanged.
\<close>

theorem signUp_result_of_response:
  assumes "assertTokenProviderConfig ac = Inr cfg"
    and "truthy (signUpUsername req)" and "truthy (signUpPassword req)"
    and "getRegion h (assertedUserPoolId cfg) = Inr r"
    and "signUpClient h r (signUp_input h cfg req) = Inr res"
  shows "(UserConfirmed res = Some True \<longrightarrow>
            fst (signUp h ac req) =
              Inr \<lparr>isSignUpComplete = True,
                   signUpNextStep = \<lparr>signUpStep = ''DONE'', codeDeliveryDetails = None\<rparr>,
                   userId = None\<rparr>) \<and>
         (UserConfirmed res \<noteq> Some True \<and> CodeDeliveryDetails res = Some d \<longrightarrow>
            fst (signUp h ac req) =
              Inr \<lparr>isSignUpComplete = False,
                   signUpNextStep =
                     \<lparr>signUpStep = ''CONFIRM_SIGN_UP'',
                      codeDeliveryDetails =
                        Some \<lparr>deliveryMedium = DeliveryMedium d,
                              destination = Destination d,
                              attributeName = AttributeName d\<rparr>\<rparr>,
                   userId = UserSub res\<rparr>) \<and>
         (UserConfirmed res \<noteq> Some True \<and> CodeDeliveryDetails res = None \<longrightarrow>
            fst (signUp h ac req) =
              Inr \<lparr>isSignUpComplete = False,
                   signUpNextStep =
                     \<lparr>signUpStep = ''CONFIRM_SIGN_UP'',
                      codeDeliveryDetails =
                        Some \<lparr>deliveryMedium = None, destination = None,
                              attributeName = None\<rparr>\<rparr>,
                   userId = UserSub res\<rparr>)"
  by (simp add: signUp_reaches_response [OF assms] signUp_result_def)

text \<open>
  The mocked service answers \<^verbatim>\<open>UserConfirmed = false\<close> with an e-mail delivery to
  \<open>a***@example.com\<close>; a second service confirms the user at once.
\<close>

theorem signUp_result_of_response_witness:
  "fst (signUp example_sign_up_helpers (Some example_auth_config)
          (example_sign_up_request ''u'' ''pw''))
     = Inr \<lparr>isSignUpComplete = False,
            signUpNextStep =
              \<lparr>signUpStep = ''CONFIRM_SIGN_UP'',
               codeDeliveryDetails =
                 Some \<lparr>deliveryMedium = Some ''EMAIL'',
                       destination = Some ''a***@example.com'',
                       attributeName = Some ''email''\<rparr>\<rparr>,
            userId = Some ''sub-1''\<rparr> \<and>
   fst (signUp (example_sign_up_helpers
                  \<lparr>signUpClient := (\<lambda>r input. Inr (example_sign_up_output
                                     \<lparr>UserConfirmed := Some True\<rparr>))\<rparr>)
          (Some example_auth_config) (example_sign_up_request ''u'' ''pw''))
     = Inr \<lparr>isSignUpComplete = True,
            signUpNextStep = \<lparr>signUpStep = ''DONE'', codeDeliveryDetails = None\<rparr>,
            userId = None\<rparr>"
proof -
  let ?h = example_sign_up_helpers
  let ?h' = "example_sign_up_helpers
               \<lparr>signUpClient := (\<lambda>r input. Inr (example_sign_up_output
                                  \<lparr>UserConfirmed := Some True\<rparr>))\<rparr>"
  let ?cfg = "\<lparr>assertedUserPoolId = ''us-east-1_abc'', assertedUserPoolClientId = ''client-1''\<rparr>"
  let ?req = "example_sign_up_request ''u'' ''pw''"
  let ?d = "\<lparr>DeliveryMedium = Some ''EMAIL'', Destination = Some ''a***@example.com'',
             AttributeName = Some ''email''\<rparr>"
  have cfg: "assertTokenProviderConfig (Some example_auth_config) = Inr ?cfg"
    by (simp add: assertTokenProviderConfig_def example_auth_config_def truthy_def)
  have u: "truthy (signUpUsername ?req)" and p: "truthy (signUpPassword ?req)"
    by (simp_all add: example_sign_up_request_def truthy_def)
  have r: "getRegion ?h (assertedUserPoolId ?cfg) = Inr ''us-east-1''"
    by (simp add: example_sign_up_helpers_def)
  have r': "getRegion ?h' (assertedUserPoolId ?cfg) = Inr ''us-east-1''"
    by (simp add: example_sign_up_helpers_def)
  have res: "signUpClient ?h ''us-east-1'' (signUp_input ?h ?cfg ?req) = Inr example_sign_up_output"
    by (simp add: example_sign_up_helpers_def)
  have res': "signUpClient ?h' ''us-east-1'' (signUp_input ?h' ?cfg ?req)
                = Inr (example_sign_up_output\<lparr>UserConfirmed := Some True\<rparr>)"
    by simp
  have out: "UserConfirmed example_sign_up_output \<noteq> Some True \<and>
             CodeDeliveryDetails example_sign_up_output = Some ?d \<and>
             UserSub example_sign_up_output = Some ''sub-1''"
    by (simp add: example_sign_up_output_def)
  have out': "UserConfirmed (example_sign_up_output\<lparr>UserConfirmed := Some True\<rparr>) = Some True"
    by simp
  show ?thesis
    using out out'
      signUp_result_of_response [OF cfg u p r res, where d = ?d]
      signUp_result_of_response [OF cfg u p r' res', where d = ?d]
    by simp
qed


section \<open>Predictions: the provider a call is dispatched to\<close>

lemma getPluggableToExecute_named_miss:
  assumes "namesProvider (Some po)"
    and "\<forall>pluggable \<in> set ps. Some (getProviderName pluggable) \<noteq> providerName po"
  shows "getPluggableToExecute ps (Some po) = Inr None"
  using assms by (simp add: getPluggableToExecute_def find_None_iff)

lemma getPluggableToExecute_throws_iff:
  "throws (getPluggableToExecute ps opts) = (\<not> namesProvider opts \<and> length ps \<noteq> 1)"
  by (cases ps; cases "tl ps") (auto simp: getPluggableToExecute_def throws_def)

text \<open>
  Claim C10: when the options name a provider that no pluggable of the capability
  carries, \<^verbatim>\<open>getPluggableToExecute\<close> returns \<^verbatim>\<open>undefined\<close> and does not throw; it
  throws (the error of more than one or no providers configured) exactly when no
  provider is named and the list does not hold exactly one pluggable; and each of
  \<^verbatim>\<open>interpret\<close>, \<^verbatim>\<open>convert\<close> and \<^verbatim>\<open>identify\<close>, on a named miss, goes on to call its
  method on \<^verbatim>\<open>undefined\<close>, a TypeError.
\<close>

theorem named_provider_miss_is_undefined:
  "(namesProvider (Some po) \<and>
    (\<forall>pluggable \<in> set ps. Some (getProviderName pluggable) \<noteq> providerName po) \<longrightarrow>
      getPluggableToExecute ps (Some po) = Inr None) \<and>
   throws (getPluggableToExecute ps opts) = (\<not> namesProvider opts \<and> length ps \<noteq> 1) \<and>
   (namesProvider (Some po) \<and>
    (\<forall>pluggable \<in> set (interpretPluggables cls).
       Some (getProviderName pluggable) \<noteq> providerName po) \<longrightarrow>
      Predictions_interpret cls input (Some po) = Inl (TypeError ''interpret'')) \<and>
   (namesProvider (Some po) \<and>
    (\<forall>pluggable \<in> set (convertPluggables cls).
       Some (getProviderName pluggable) \<noteq> providerName po) \<longrightarrow>
      Predictions_convert cls input (Some po) = Inl (TypeError ''convert'')) \<and>
   (namesProvider (Some po) \<and>
    (\<forall>pluggable \<in> set (identifyPluggables cls).
       Some (getProviderName pluggable) \<noteq> providerName po) \<longrightarrow>
      Predictions_identify cls input (Some po) = Inl (TypeError ''identify''))"
proof (intro conjI impI)
  show "throws (getPluggableToExecute ps opts) = (\<not> namesProvider opts \<and> length ps \<noteq> 1)"
    by (rule getPluggableToExecute_throws_iff)
qed (simp_all add: getPluggableToExecute_named_miss callOn_def Predictions_interpret_def
       Predictions_convert_def Predictions_identify_def)

text \<open>
  One pluggable, \<open>AmazonAI\<close>, registered for interpretation, and a call that names
  \<open>Other\<close>: no error of configuration, an undefined provider, a TypeError.
\<close>

theorem named_provider_miss_is_undefined_witness:
  "namesProvider (Some \<lparr>providerName = Some ''Other''\<rparr>) \<and>
   list_all
     (\<lambda>pluggable.
        Some (getProviderName pluggable) \<noteq> providerName \<lparr>providerName = Some ''Other''\<rparr>)
     [example_pluggable ''AmazonAI''] \<and>
   getPluggableToExecute [example_pluggable ''AmazonAI''] (Some \<lparr>providerName = Some ''Other''\<rparr>)
     = Inr None \<and>
   Predictions_interpret
     \<lparr>convertPluggables = [], identifyPluggables = [],
      interpretPluggables = [example_pluggable ''AmazonAI'']\<rparr>
     ''text'' (Some \<lparr>providerName = Some ''Other''\<rparr>)
     = Inl (TypeError ''interpret'')"
proof -
  let ?po = "\<lparr>providerName = Some ''Other''\<rparr>"
  let ?ps = "[example_pluggable ''AmazonAI'']"
  let ?cls = "\<lparr>convertPluggables = [], identifyPluggables = [], interpretPluggables = ?ps\<rparr>"
  have named: "namesProvider (Some ?po)"
    by (simp add: namesProvider_def truthy_opt_def)
  have miss: "\<forall>pluggable \<in> set ?ps. Some (getProviderName pluggable) \<noteq> providerName ?po"
    by (simp add: example_pluggable_def)
  show ?thesis
    using named miss
      named_provider_miss_is_undefined [of ?po ?ps "Some ?po" ?cls "''text''"]
    by simp
qed

end
